theory Spec2Isabelle
  imports Main "HOL-Library.AList"
begin

section \<open>Alipay statement to OFX: a shallow embedding of \<open>alipay_to_ofx.py\<close>\<close>

text \<open>
  Python strings are sequences of Unicode code points, and the converter slices them by
  code point (\<open>s[1:]\<close>) and compares them with Chinese labels. A string is therefore a
  list of code points, each a natural number; \<open>u\<close> turns an ASCII literal into such a
  string. A Python string may hold a lone surrogate, which no decoder produces and which
  UTF-8 cannot encode; \<open>save_translations_map\<close> models the failure of writing one.
\<close>

type_synonym pystr = "nat list"

definition u :: "string \<Rightarrow> pystr" where
  "u s = map of_char s"

text \<open>The exceptions the program can raise, by their Python class.\<close>

datatype py_error =
    UnicodeDecodeError
  | TypeError
  | IndexError
  | ValueError
  | KeyError
  | AttributeError
  | UnboundLocalError
  | SystemError
  | UnicodeEncodeError
  | CsvError
  | OtherError

subsection \<open>String operations of Python\<close>

text \<open>
  Whitespace as \<open>str.strip\<close>, \<open>str.split\<close> without argument and the regular
  expression \<open>\s\<close> see it: the code points for which \<open>str.isspace\<close> holds.
\<close>

definition py_isspace :: "nat \<Rightarrow> bool" where
  "py_isspace c \<longleftrightarrow>
     (0x09 \<le> c \<and> c \<le> 0x0D) \<or> (0x1C \<le> c \<and> c \<le> 0x20) \<or> c = 0x85 \<or> c = 0xA0 \<or>
     c = 0x1680 \<or> (0x2000 \<le> c \<and> c \<le> 0x200A) \<or> c = 0x2028 \<or> c = 0x2029 \<or>
     c = 0x202F \<or> c = 0x205F \<or> c = 0x3000"

definition lstrip :: "pystr \<Rightarrow> pystr" where
  "lstrip s = dropWhile py_isspace s"

definition rstrip :: "pystr \<Rightarrow> pystr" where
  "rstrip s = rev (dropWhile py_isspace (rev s))"

definition strip :: "pystr \<Rightarrow> pystr" where
  "strip s = rstrip (lstrip s)"

definition startswith :: "pystr \<Rightarrow> pystr \<Rightarrow> bool" where
  "startswith s p \<longleftrightarrow> take (length p) s = p"

text \<open>
  \<open>s.split(sep)\<close> for a non-empty separator: the pieces between the occurrences of
  \<open>sep\<close>, found from left to right; always at least one piece. \<open>cur\<close> is the piece
  being read. (Python raises on an empty separator; the program passes literals only.)
\<close>

function split_from :: "pystr \<Rightarrow> pystr \<Rightarrow> pystr \<Rightarrow> pystr list" where
  "split_from sep cur [] = [cur]"
| "split_from sep cur (c # cs) =
     (if sep \<noteq> [] \<and> take (length sep) (c # cs) = sep
      then cur # split_from sep [] (drop (length sep) (c # cs))
      else split_from sep (cur @ [c]) cs)"
  by pat_completeness auto
termination
  by (relation "measure (\<lambda>(sep, cur, s). length s)") (auto simp: neq_Nil_conv)

definition split_sep :: "pystr \<Rightarrow> pystr \<Rightarrow> pystr list" where
  "split_sep sep s = split_from sep [] s"

text \<open>\<open>s.split()\<close>: the maximal runs of non-whitespace, none of them empty.\<close>

fun words_from :: "pystr \<Rightarrow> pystr \<Rightarrow> pystr list" where
  "words_from cur [] = (if cur = [] then [] else [cur])"
| "words_from cur (c # cs) =
     (if py_isspace c then (if cur = [] then words_from [] cs else cur # words_from [] cs)
      else words_from (cur @ [c]) cs)"

definition split_ws :: "pystr \<Rightarrow> pystr list" where
  "split_ws s = words_from [] s"

text \<open>\<open>xs[i]\<close> for a non-negative literal index: out of range raises \<open>IndexError\<close>.\<close>

definition item :: "'a list \<Rightarrow> nat \<Rightarrow> py_error + 'a" where
  "item xs i = (if i < length xs then Inr (xs ! i) else Inl IndexError)"

subsection \<open>Text files\<close>

text \<open>
  A text file is held as its decoded text. Reading in text mode translates \<open>\r\n\<close> and
  a lone \<open>\r\<close> to \<open>\n\<close> (universal newlines); iterating over the file, like
  \<open>readlines\<close>, yields the lines with their terminating \<open>\n\<close>, the last one possibly
  without. Writing leaves the text as it is (a platform that writes \<open>\n\<close> as \<open>\r\n\<close>
  reads it back as \<open>\n\<close>).
\<close>

fun universal_newlines :: "pystr \<Rightarrow> pystr" where
  "universal_newlines [] = []"
| "universal_newlines [c] = [if c = 13 then 10 else c]"
| "universal_newlines (c # d # ds) =
     (if c = 13 \<and> d = 10 then 10 # universal_newlines ds
      else if c = 13 then 10 # universal_newlines (d # ds)
      else c # universal_newlines (d # ds))"

fun lines_from :: "pystr \<Rightarrow> pystr \<Rightarrow> pystr list" where
  "lines_from cur [] = (if cur = [] then [] else [cur])"
| "lines_from cur (c # cs) =
     (if c = 10 then (cur @ [c]) # lines_from [] cs else lines_from (cur @ [c]) cs)"

definition readlines :: "pystr \<Rightarrow> pystr list" where
  "readlines text = lines_from [] (universal_newlines text)"

type_synonym filesystem = "pystr \<rightharpoonup> pystr"

subsection \<open>Translator\<close>

text \<open>
  \<open>translate_text\<close> posts one request to the remote service. What the service answers
  is outside the program: \<open>Http_error\<close> is a reply whose \<open>raise_for_status\<close> raises,
  \<open>Translated t\<close> a reply whose JSON carries \<open>t\<close> at the expected path, and
  \<open>Failure e\<close> any other exception of the request or of the JSON lookup. An invocation
  is recorded as the triple of its arguments; the service may answer differently depending
  on the invocations made before.
\<close>

datatype reply = Http_error | Translated pystr | Failure py_error

type_synonym invocation = "pystr \<times> pystr \<times> pystr option"

type_synonym service = "invocation list \<Rightarrow> pystr \<Rightarrow> pystr \<Rightarrow> pystr \<Rightarrow> reply"

definition translate_text ::
    "service \<Rightarrow> invocation list \<Rightarrow> pystr \<Rightarrow> pystr \<Rightarrow> pystr option \<Rightarrow> py_error + pystr" where
  "translate_text svc earlier text target_lang api_key =
     (case api_key of
        None \<Rightarrow> Inl ValueError
      | Some k \<Rightarrow>
          if k = [] then Inl ValueError
          else (case svc earlier text target_lang k of
                  Http_error \<Rightarrow> Inl SystemError
                | Failure e \<Rightarrow> Inl e
                | Translated t \<Rightarrow> Inr t))"

subsection \<open>Cache-backed field translation\<close>

text \<open>
  The translations dictionary keeps insertion order (it is written out in that order), so
  it is an association list; \<open>translations[text] = v\<close> is \<open>AList.update\<close>, which
  replaces the value of a present key in place and appends an absent one. The dictionary
  is mutated in place, hence part of the state, together with the log of the invocations
  of \<open>translate_text\<close>.
\<close>

type_synonym translation_map = "(pystr \<times> pystr) list"

record tstate =
  cache :: translation_map
  calls :: "invocation list"

definition translate_field ::
    "service \<Rightarrow> pystr \<Rightarrow> pystr \<Rightarrow> pystr option \<Rightarrow> tstate \<Rightarrow> (py_error + pystr) \<times> tstate" where
  "translate_field svc text target_lang api_key st =
     (case map_of (cache st) text of
        Some t \<Rightarrow> (Inr (t @ u '' ('' @ text @ u '')''), st)
      | None \<Rightarrow>
          (let st1 = st\<lparr>calls := calls st @ [(text, target_lang, api_key)]\<rparr> in
           case translate_text svc (calls st) text target_lang api_key of
             Inl e \<Rightarrow> (Inl e, st1)
           | Inr t \<Rightarrow>
               (Inr (t @ u '' ('' @ text @ u '')''),
                st1\<lparr>cache := AList.update text t (cache st)\<rparr>)))"

subsection \<open>Translation cache\<close>

text \<open>
  \<open>load_translations_map\<close>: a missing file is the empty dictionary; otherwise every line
  is stripped and split at the pipe, and unpacking the pieces into two names raises
  \<open>ValueError\<close> unless there are exactly two.
\<close>

fun load_lines :: "translation_map \<Rightarrow> pystr list \<Rightarrow> py_error + translation_map" where
  "load_lines tr [] = Inr tr"
| "load_lines tr (line # rest) =
     (case split_sep (u ''|'') (strip line) of
        [original, translated] \<Rightarrow> load_lines (AList.update original translated tr) rest
      | _ \<Rightarrow> Inl ValueError)"

definition load_translations_map :: "pystr \<Rightarrow> filesystem \<Rightarrow> py_error + translation_map" where
  "load_translations_map translation_file fs =
     (case fs translation_file of
        None \<Rightarrow> Inr []
      | Some text \<Rightarrow> load_lines [] (readlines text))"

text \<open>
  \<open>save_translations_map\<close> opens the file for writing, which empties it, and writes one
  line per entry, in dictionary order. The file is UTF-8: each \<open>write\<close> encodes its line
  on the spot and raises \<open>UnicodeEncodeError\<close> when the line holds a code point that is
  not a Unicode scalar value (a lone surrogate). The \<open>with\<close> statement closes the file
  either way, so it then holds the lines written before. The result is the exception
  raised, if any, and the file system left behind.
\<close>

definition scalar_value :: "nat \<Rightarrow> bool" where
  "scalar_value c \<longleftrightarrow> c < 0xD800 \<or> (0xE000 \<le> c \<and> c \<le> 0x10FFFF)"

definition encodable :: "pystr \<Rightarrow> bool" where
  "encodable s \<longleftrightarrow> list_all scalar_value s"

definition entry_line :: "pystr \<times> pystr \<Rightarrow> pystr" where
  "entry_line e = fst e @ u ''|'' @ snd e @ u ''\<newline>''"

fun write_entries :: "pystr \<Rightarrow> translation_map \<Rightarrow> py_error option \<times> pystr" where
  "write_entries text [] = (None, text)"
| "write_entries text (e # es) =
     (if encodable (entry_line e) then write_entries (text @ entry_line e) es
      else (Some UnicodeEncodeError, text))"

definition save_translations_map ::
    "translation_map \<Rightarrow> pystr \<Rightarrow> filesystem \<Rightarrow> py_error option \<times> filesystem" where
  "save_translations_map tr translation_file fs =
     (case write_entries [] tr of
        (raised, text) \<Rightarrow> (raised, fs(translation_file \<mapsto> text)))"

text \<open>
  An entry that survives being written as a line and read back: both strings can be
  encoded, there is no pipe and no line break inside either of them, no whitespace at the
  start of the original and none at the end of the translation
  (\<open>load_translations_map\<close> strips every line).
\<close>

definition plain_entry :: "pystr \<times> pystr \<Rightarrow> bool" where
  "plain_entry e \<longleftrightarrow>
     encodable (fst e) \<and> encodable (snd e) \<and>
     124 \<notin> set (fst e) \<and> 124 \<notin> set (snd e) \<and>
     10 \<notin> set (fst e) \<and> 10 \<notin> set (snd e) \<and>
     13 \<notin> set (fst e) \<and> 13 \<notin> set (snd e) \<and>
     lstrip (fst e) = fst e \<and> rstrip (snd e) = snd e"

subsection \<open>Statement reader\<close>

text \<open>Raising through a sequence of steps: the first error ends it.\<close>

definition and_then :: "py_error + 'a \<Rightarrow> ('a \<Rightarrow> py_error + 'b) \<Rightarrow> py_error + 'b" where
  "and_then m f = (case m of Inl e \<Rightarrow> Inl e | Inr x \<Rightarrow> f x)"

text \<open>
  The input file is given by what \<open>open(input_file, 'r', encoding=e).readlines()\<close>
  yields for each encoding \<open>e\<close>: the lines, or the exception raised (\<open>UnicodeDecodeError\<close>
  when the bytes do not decode under \<open>e\<close>).
\<close>

type_synonym input_file = "string \<Rightarrow> py_error + pystr list"

definition encoding_list :: "string list" where
  "encoding_list = [''utf-8'', ''gbk'', ''gb2312'']"

text \<open>
  The constructor of \<open>UnicodeDecodeError\<close> takes exactly five arguments (encoding,
  object, start, end, reason); a call with any other number of arguments raises
  \<open>TypeError\<close> instead of building the exception.
\<close>

definition new_UnicodeDecodeError :: "pystr list \<Rightarrow> py_error" where
  "new_UnicodeDecodeError args = (if length args = 5 then UnicodeDecodeError else TypeError)"

text \<open>
  The \<open>for\<close> ... \<open>else\<close> over the encodings: the first encoding that reads the file
  ends the loop; \<open>UnicodeDecodeError\<close> moves on to the next one, any other exception
  propagates; the \<open>else\<close> branch raises \<open>UnicodeDecodeError(message)\<close>, a call with
  one argument.
\<close>

fun read_with :: "input_file \<Rightarrow> string list \<Rightarrow> py_error + pystr list" where
  "read_with file [] = Inl (new_UnicodeDecodeError [u ''Failed to decode with available encodings.''])"
| "read_with file (encoding # rest) =
     (case file encoding of
        Inr lines \<Rightarrow> Inr lines
      | Inl UnicodeDecodeError \<Rightarrow> read_with file rest
      | Inl e \<Rightarrow> Inl e)"

text \<open>The labels of the statement, as code points.\<close>

definition label_account :: pystr where "label_account = [0x8D26, 0x53F7]"
definition label_start_date :: pystr where "label_start_date = [0x8D77, 0x59CB, 0x65E5, 0x671F]"
definition label_total :: pystr where "label_total = [0x5171]"
definition label_records :: pystr where "label_records = [0x7B14, 0x8BB0, 0x5F55]"
definition label_income :: pystr where "label_income = [0x5DF2, 0x6536, 0x5165, 0x3A]"
definition label_expense :: pystr where "label_expense = [0x5DF2, 0x652F, 0x51FA, 0x3A]"
definition label_export_time :: pystr where "label_export_time = [0x5BFC, 0x51FA, 0x65F6, 0x95F4]"
definition label_transaction_id :: pystr where "label_transaction_id = [0x4EA4, 0x6613, 0x53F7]"
definition income_marker :: pystr where "income_marker = [0x6536, 0x5165]"

text \<open>
  The metadata and every transaction are dictionaries from field names to strings; a
  missing key is \<open>None\<close>.
\<close>

type_synonym pydict = "string \<rightharpoonup> pystr"

definition metadata0 :: pydict where
  "metadata0 = [''account'' \<mapsto> [], ''start_date'' \<mapsto> [], ''end_date'' \<mapsto> [],
                ''export_time'' \<mapsto> [], ''total_in'' \<mapsto> [], ''total_out'' \<mapsto> []]"

fun scan_categories :: "pydict \<Rightarrow> pystr list \<Rightarrow> py_error + pydict" where
  "scan_categories md [] = Inr md"
| "scan_categories md (cat # cats) =
     (if startswith cat label_income then
        and_then (item (split_sep (u '':'') cat) 1) (\<lambda>a.
        and_then (item (split_sep (u '','') a) 1) (\<lambda>v.
        scan_categories (md(''total_in'' \<mapsto> v)) cats))
      else if startswith cat label_expense then
        and_then (item (split_sep (u '':'') cat) 1) (\<lambda>a.
        and_then (item (split_sep (u '','') a) 1) (\<lambda>v.
        scan_categories (md(''total_out'' \<mapsto> v)) cats))
      else scan_categories md cats)"

text \<open>The \<open>if\<close>/\<open>elif\<close> chain on one line of the header.\<close>

definition scan_line :: "pydict \<Rightarrow> pystr \<Rightarrow> py_error + pydict" where
  "scan_line md line =
     (if startswith line label_account then
        and_then (item (split_sep (u '':'') line) 1) (\<lambda>a.
        Inr (md(''account'' \<mapsto> strip a)))
      else if startswith line label_start_date then
        (let dates = split_ws line in
         and_then (item dates 0) (\<lambda>d0.
         and_then (item (split_sep (u '':'') d0) 1) (\<lambda>s.
         and_then (item dates 2) (\<lambda>d2.
         and_then (item (split_sep (u ''['') d2) 1) (\<lambda>e.
         and_then (item (split_ws (strip e)) 0) (\<lambda>e0.
         Inr (md(''start_date'' \<mapsto> drop 1 (strip s), ''end_date'' \<mapsto> e0))))))))
      else if startswith line label_total then
        (let summary = strip line in
         and_then (item (split_sep label_records summary) 0) (\<lambda>n.
         scan_categories (md(''total_records'' \<mapsto> drop 1 n)) (split_sep (u '' '') summary)))
      else if startswith (strip line) label_export_time then
        and_then (item (split_sep (u '':'') line) 1) (\<lambda>a.
        and_then (item (split_ws (strip a)) 0) (\<lambda>t.
        Inr (md(''export_time'' \<mapsto> drop 1 t))))
      else Inr md)"

text \<open>
  The loop over the lines. It ends at the first line that starts with the transaction
  header label, binding \<open>transaction_lines\<close> to the lines after it; when no line does,
  the loop runs out and \<open>transaction_lines\<close> stays unbound (\<open>None\<close>).
\<close>

fun scan_lines :: "pydict \<Rightarrow> pystr list \<Rightarrow> py_error + pydict \<times> pystr list option" where
  "scan_lines md [] = Inr (md, None)"
| "scan_lines md (line # rest) =
     and_then (scan_line md line) (\<lambda>md'.
       if startswith line label_transaction_id then Inr (md', Some rest)
       else scan_lines md' rest)"

definition transaction_of :: "pystr list \<Rightarrow> pydict" where
  "transaction_of row =
     [''transaction_id'' \<mapsto> strip (row ! 0),
      ''merchant_order_id'' \<mapsto> strip (row ! 1),
      ''transaction_create_time'' \<mapsto> strip (row ! 2),
      ''payment_time'' \<mapsto> strip (row ! 3),
      ''last_modified_time'' \<mapsto> strip (row ! 4),
      ''transaction_source'' \<mapsto> strip (row ! 5),
      ''type'' \<mapsto> strip (row ! 6),
      ''counterparty'' \<mapsto> strip (row ! 7),
      ''item_name'' \<mapsto> strip (row ! 8),
      ''amount_cny'' \<mapsto> strip (row ! 9),
      ''income_or_expense'' \<mapsto> strip (row ! 10),
      ''transaction_status'' \<mapsto> strip (row ! 11),
      ''service_fee'' \<mapsto> strip (row ! 12),
      ''successful_refund'' \<mapsto> strip (row ! 13),
      ''remarks'' \<mapsto> strip (row ! 14),
      ''fund_status'' \<mapsto> strip (row ! 15)]"

text \<open>
  The loop over the rows of the reader: a row of fewer than 17 fields is passed over, any
  other row is appended as a transaction (its indices 0 to 15 exist).
\<close>

fun collect_rows :: "pydict list \<Rightarrow> pystr list list \<Rightarrow> pydict list" where
  "collect_rows transactions [] = transactions"
| "collect_rows transactions (row # rows) =
     (if length row < 17 then collect_rows transactions rows
      else collect_rows (transactions @ [transaction_of row]) rows)"

text \<open>
  \<open>csv.reader\<close> belongs to Python's library: \<open>parse_alipay_file\<close> takes it as the
  function from the lines it is given to the rows it yields, or to the error it raises.
  Reading \<open>transaction_lines\<close> while it is unbound raises \<open>UnboundLocalError\<close>.
\<close>

type_synonym row_reader = "pystr list \<Rightarrow> py_error + pystr list list"

definition parse_alipay_file :: "row_reader \<Rightarrow> input_file \<Rightarrow> py_error + pydict list \<times> pydict" where
  "parse_alipay_file reader file =
     and_then (read_with file encoding_list) (\<lambda>lines.
     and_then (scan_lines metadata0 lines) (\<lambda>(metadata, bound).
       case bound of
         None \<Rightarrow> Inl UnboundLocalError
       | Some transaction_lines \<Rightarrow>
           and_then (reader transaction_lines) (\<lambda>rows.
           Inr (collect_rows [] rows, metadata))))"

subsection \<open>The reader of Python's \<open>csv\<close> module\<close>

text \<open>
  The state machine of \<open>csv.reader\<close> under the dialect the program uses (comma, double
  quote, doubled quotes inside quoted fields, no escape character, not strict), with its
  field size limit of 131072 characters. A character is fed as \<open>Some c\<close>; \<open>None\<close> is
  the end-of-line marker fed after each line.
\<close>

datatype csv_state =
  START_RECORD | START_FIELD | IN_FIELD | IN_QUOTED_FIELD | QUOTE_IN_QUOTED_FIELD | EAT_CRNL

record csv_parser =
  pstate :: csv_state
  cur_field :: pystr
  row_fields :: "pystr list"

definition parser0 :: csv_parser where
  "parser0 = \<lparr>pstate = START_RECORD, cur_field = [], row_fields = []\<rparr>"

definition parse_save_field :: "csv_parser \<Rightarrow> csv_parser" where
  "parse_save_field p = p\<lparr>row_fields := row_fields p @ [cur_field p], cur_field := []\<rparr>"

definition parse_add_char :: "csv_parser \<Rightarrow> nat \<Rightarrow> py_error + csv_parser" where
  "parse_add_char p c =
     (if 131072 \<le> length (cur_field p) then Inl CsvError
      else Inr (p\<lparr>cur_field := cur_field p @ [c]\<rparr>))"

definition is_newline :: "nat option \<Rightarrow> bool" where
  "is_newline c \<longleftrightarrow> c = Some 10 \<or> c = Some 13"

definition end_of_record :: "csv_parser \<Rightarrow> nat option \<Rightarrow> csv_parser" where
  "end_of_record p c =
     (parse_save_field p)\<lparr>pstate := (if c = None then START_RECORD else EAT_CRNL)\<rparr>"

definition start_field :: "csv_parser \<Rightarrow> nat option \<Rightarrow> py_error + csv_parser" where
  "start_field p c =
     (case c of
        None \<Rightarrow> Inr (end_of_record p c)
      | Some ch \<Rightarrow>
          if is_newline c then Inr (end_of_record p c)
          else if ch = 0x22 then Inr (p\<lparr>pstate := IN_QUOTED_FIELD\<rparr>)
          else if ch = 0x2C then Inr ((parse_save_field p)\<lparr>pstate := START_FIELD\<rparr>)
          else and_then (parse_add_char p ch) (\<lambda>p'. Inr (p'\<lparr>pstate := IN_FIELD\<rparr>)))"

definition parse_process_char :: "csv_parser \<Rightarrow> nat option \<Rightarrow> py_error + csv_parser" where
  "parse_process_char p c =
     (case pstate p of
        START_RECORD \<Rightarrow>
          if c = None then Inr p
          else if is_newline c then Inr (p\<lparr>pstate := EAT_CRNL\<rparr>)
          else start_field p c
      | START_FIELD \<Rightarrow> start_field p c
      | IN_FIELD \<Rightarrow>
          (case c of
             None \<Rightarrow> Inr (end_of_record p c)
           | Some ch \<Rightarrow>
               if is_newline c then Inr (end_of_record p c)
               else if ch = 0x2C then Inr ((parse_save_field p)\<lparr>pstate := START_FIELD\<rparr>)
               else parse_add_char p ch)
      | IN_QUOTED_FIELD \<Rightarrow>
          (case c of
             None \<Rightarrow> Inr p
           | Some ch \<Rightarrow>
               if ch = 0x22 then Inr (p\<lparr>pstate := QUOTE_IN_QUOTED_FIELD\<rparr>)
               else parse_add_char p ch)
      | QUOTE_IN_QUOTED_FIELD \<Rightarrow>
          (case c of
             None \<Rightarrow> Inr (end_of_record p c)
           | Some ch \<Rightarrow>
               if ch = 0x22 then
                 and_then (parse_add_char p ch) (\<lambda>p'. Inr (p'\<lparr>pstate := IN_QUOTED_FIELD\<rparr>))
               else if ch = 0x2C then Inr ((parse_save_field p)\<lparr>pstate := START_FIELD\<rparr>)
               else if is_newline c then Inr (end_of_record p c)
               else and_then (parse_add_char p ch) (\<lambda>p'. Inr (p'\<lparr>pstate := IN_FIELD\<rparr>)))
      | EAT_CRNL \<Rightarrow>
          if is_newline c then Inr p
          else if c = None then Inr (p\<lparr>pstate := START_RECORD\<rparr>)
          else Inl CsvError)"

fun feed :: "csv_parser \<Rightarrow> nat option list \<Rightarrow> py_error + csv_parser" where
  "feed p [] = Inr p"
| "feed p (c # cs) = and_then (parse_process_char p c) (\<lambda>p'. feed p' cs)"

text \<open>
  One record may span several lines (a quoted field holding a line break). A record is
  complete when the parser is back at \<open>START_RECORD\<close> after a line; when the lines run
  out inside a record, what has been read so far is the last row.
\<close>

fun rows_from :: "csv_parser \<Rightarrow> pystr list \<Rightarrow> py_error + pystr list list" where
  "rows_from p [] =
     (if cur_field p \<noteq> [] \<or> pstate p = IN_QUOTED_FIELD
      then Inr [row_fields (parse_save_field p)] else Inr [])"
| "rows_from p (line # rest) =
     and_then (feed p (map Some line @ [None])) (\<lambda>p'.
       if pstate p' = START_RECORD
       then and_then (rows_from parser0 rest) (\<lambda>rows. Inr (row_fields p' # rows))
       else rows_from p' rest)"

definition csv_reader :: row_reader where
  "csv_reader lines = rows_from parser0 lines"

text \<open>
  The transaction section of a statement: the lines after the first line that starts
  with the transaction header label, if there is one.
\<close>

fun transaction_section :: "pystr list \<Rightarrow> pystr list option" where
  "transaction_section [] = None"
| "transaction_section (line # rest) =
     (if startswith line label_transaction_id then Some rest else transaction_section rest)"

text \<open>Statements used as concrete inputs: a header line followed by one row.\<close>

definition header_line :: pystr where
  "header_line = label_transaction_id @ u '',...\<newline>''"

definition row_of_16 :: pystr where
  "row_of_16 = u ''T1,M1,c,p,m,s,t,Shop,Tea,12.50,in,ok,0,0,r,f\<newline>''"

definition row_of_17 :: pystr where
  "row_of_17 = u ''T1,M1,c,p,m,s,t,Shop,Tea,12.50,in,ok,0,0,r,f,\<newline>''"

definition utf8_file :: "pystr list \<Rightarrow> input_file" where
  "utf8_file lines encoding = (if encoding = ''utf-8'' then Inr lines else Inl UnicodeDecodeError)"

definition undecodable_file :: input_file where
  "undecodable_file encoding = Inl UnicodeDecodeError"

definition gbk_file :: input_file where
  "gbk_file encoding = (if encoding = ''utf-8'' then Inl UnicodeDecodeError else Inr [u encoding])"

subsection \<open>Date reformatting\<close>

text \<open>
  \<open>datetime.strptime(s, '%Y-%m-%d %H:%M:%S')\<close> matches \<open>s\<close> against the regular
  expression the library builds for the format,

  \<^verbatim>\<open>(\d\d\d\d)-(1[0-2]|0[1-9]|[1-9])-(3[0-1]|[1-2]\d|0[1-9]|[1-9]| [1-9])\s+\<close>
  \<^verbatim>\<open>(2[0-3]|[0-1]\d|\d):([0-5]\d|\d):(6[0-1]|[0-5]\d|\d)\<close>

  and wants the match to cover the whole string. \<open>\d\<close> is any Unicode decimal digit
  (the blocks of ten digits starting at \<open>decimal_zeros\<close>, Unicode 14), a bracket a range
  of ASCII digits, \<open>\s\<close> whitespace. Each group tries its alternatives from left to
  right. The first alternative that matches is final: every two-character alternative ends
  in a digit and every group is followed by a non-digit (or by the end), so a later,
  shorter alternative cannot succeed where an earlier one matched.
\<close>

definition decimal_zeros :: "nat list" where
  "decimal_zeros =
     [0x30, 0x660, 0x6F0, 0x7C0, 0x966, 0x9E6, 0xA66, 0xAE6, 0xB66, 0xBE6, 0xC66, 0xCE6, 0xD66,
      0xDE6, 0xE50, 0xED0, 0xF20, 0x1040, 0x1090, 0x17E0, 0x1810, 0x1946, 0x19D0, 0x1A80,
      0x1A90, 0x1B50, 0x1BB0, 0x1C40, 0x1C50, 0xA620, 0xA8D0, 0xA900, 0xA9D0, 0xA9F0, 0xAA50,
      0xABF0, 0xFF10, 0x104A0, 0x10D30, 0x11066, 0x110F0, 0x11136, 0x111D0, 0x112F0, 0x11450,
      0x114D0, 0x11650, 0x116C0, 0x11730, 0x118E0, 0x11950, 0x11C50, 0x11D50, 0x11DA0,
      0x16A60, 0x16AC0, 0x16B50, 0x1D7CE, 0x1D7D8, 0x1D7E2, 0x1D7EC, 0x1D7F6, 0x1E140,
      0x1E2F0, 0x1E950, 0x1FBF0]"

definition digit_value :: "nat \<Rightarrow> nat option" where
  "digit_value c = map_option (\<lambda>z. c - z) (find (\<lambda>z. z \<le> c \<and> c < z + 10) decimal_zeros)"

definition any_digit :: "nat \<Rightarrow> bool" where
  "any_digit c \<longleftrightarrow> digit_value c \<noteq> None"

definition between :: "nat \<Rightarrow> nat \<Rightarrow> nat \<Rightarrow> bool" where
  "between lo hi c \<longleftrightarrow> 0x30 + lo \<le> c \<and> c \<le> 0x30 + hi"

text \<open>
  A match of a group is the number read (\<open>int\<close> of the matched text) and the rest of
  the string. \<open>two p q\<close> is an alternative of two characters, \<open>one p\<close> of one.
\<close>

type_synonym matcher = "pystr \<Rightarrow> (nat \<times> pystr) option"

definition two :: "(nat \<Rightarrow> bool) \<Rightarrow> (nat \<Rightarrow> bool) \<Rightarrow> matcher" where
  "two p q s =
     (case s of
        a # b # rest \<Rightarrow>
          (if p a \<and> q b
           then (case (digit_value a, digit_value b) of
                   (Some x, Some y) \<Rightarrow> Some (10 * x + y, rest)
                 | _ \<Rightarrow> None)
           else None)
      | _ \<Rightarrow> None)"

definition one :: "(nat \<Rightarrow> bool) \<Rightarrow> matcher" where
  "one p s =
     (case s of
        a # rest \<Rightarrow> (if p a then map_option (\<lambda>x. (x, rest)) (digit_value a) else None)
      | _ \<Rightarrow> None)"

definition blank_one :: matcher where
  "blank_one s =
     (case s of
        a # b # rest \<Rightarrow> (if a = 0x20 \<and> between 1 9 b then Some (b - 0x30, rest) else None)
      | _ \<Rightarrow> None)"

definition orelse :: "'a option \<Rightarrow> 'a option \<Rightarrow> 'a option" where
  "orelse x y = (case x of None \<Rightarrow> y | Some v \<Rightarrow> Some v)"

definition match_Y :: matcher where
  "match_Y s =
     (case s of
        a # b # c # d # rest \<Rightarrow>
          (case (digit_value a, digit_value b, digit_value c, digit_value d) of
             (Some w, Some x, Some y, Some z) \<Rightarrow> Some (1000 * w + 100 * x + 10 * y + z, rest)
           | _ \<Rightarrow> None)
      | _ \<Rightarrow> None)"

definition match_m :: matcher where
  "match_m s =
     orelse (two (between 1 1) (between 0 2) s)
    (orelse (two (between 0 0) (between 1 9) s)
            (one (between 1 9) s))"

definition match_d :: matcher where
  "match_d s =
     orelse (two (between 3 3) (between 0 1) s)
    (orelse (two (between 1 2) any_digit s)
    (orelse (two (between 0 0) (between 1 9) s)
    (orelse (one (between 1 9) s)
            (blank_one s))))"

definition match_H :: matcher where
  "match_H s =
     orelse (two (between 2 2) (between 0 3) s)
    (orelse (two (between 0 1) any_digit s)
            (one any_digit s))"

definition match_M :: matcher where
  "match_M s = orelse (two (between 0 5) any_digit s) (one any_digit s)"

definition match_S :: matcher where
  "match_S s =
     orelse (two (between 6 6) (between 0 1) s)
    (orelse (two (between 0 5) any_digit s)
            (one any_digit s))"

definition literal :: "nat \<Rightarrow> pystr \<Rightarrow> pystr option" where
  "literal c s = (case s of a # rest \<Rightarrow> (if a = c then Some rest else None) | _ \<Rightarrow> None)"

definition spaces :: "pystr \<Rightarrow> pystr option" where
  "spaces s =
     (case s of
        a # rest \<Rightarrow> (if py_isspace a then Some (dropWhile py_isspace rest) else None)
      | _ \<Rightarrow> None)"

record datetime =
  year :: nat
  month :: nat
  day :: nat
  hour :: nat
  minute :: nat
  second :: nat

definition match_format :: "pystr \<Rightarrow> datetime option" where
  "match_format s =
     Option.bind (match_Y s) (\<lambda>(Y, s1).
     Option.bind (literal 0x2D s1) (\<lambda>s2.
     Option.bind (match_m s2) (\<lambda>(m, s3).
     Option.bind (literal 0x2D s3) (\<lambda>s4.
     Option.bind (match_d s4) (\<lambda>(d, s5).
     Option.bind (spaces s5) (\<lambda>s6.
     Option.bind (match_H s6) (\<lambda>(H, s7).
     Option.bind (literal 0x3A s7) (\<lambda>s8.
     Option.bind (match_M s8) (\<lambda>(M, s9).
     Option.bind (literal 0x3A s9) (\<lambda>s10.
     Option.bind (match_S s10) (\<lambda>(S, s11).
     if s11 = [] then
       Some \<lparr>year = Y, month = m, day = d, hour = H, minute = M, second = S\<rparr>
     else None)))))))))))"

text \<open>
  The date must exist (years start at 1, the day must lie in the month, by the proleptic
  Gregorian calendar) and the second must be below 60, although the expression lets 60
  and 61 through. Every failure of \<open>strptime\<close> is a \<open>ValueError\<close>.
\<close>

definition is_leap :: "nat \<Rightarrow> bool" where
  "is_leap y \<longleftrightarrow> y mod 4 = 0 \<and> (y mod 100 \<noteq> 0 \<or> y mod 400 = 0)"

definition days_in_month :: "nat \<Rightarrow> nat \<Rightarrow> nat" where
  "days_in_month y m =
     (if m = 2 then (if is_leap y then 29 else 28)
      else if m = 4 \<or> m = 6 \<or> m = 9 \<or> m = 11 then 30 else 31)"

definition valid_datetime :: "datetime \<Rightarrow> bool" where
  "valid_datetime dt \<longleftrightarrow>
     1 \<le> year dt \<and> day dt \<le> days_in_month (year dt) (month dt) \<and> second dt \<le> 59"

definition strptime :: "pystr \<Rightarrow> py_error + datetime" where
  "strptime s =
     (case match_format s of
        None \<Rightarrow> Inl ValueError
      | Some dt \<Rightarrow> if valid_datetime dt then Inr dt else Inl ValueError)"

text \<open>
  \<open>strftime('%Y%m%d%H%M%S')\<close>: month, day, hour, minute and second as two digits each.
  The year is printed by the C library as a decimal number; glibc does not pad it, so a
  year below 1000 has fewer than four digits.
\<close>

fun decimal :: "nat \<Rightarrow> pystr" where
  "decimal n = (if n < 10 then [0x30 + n] else decimal (n div 10) @ [0x30 + n mod 10])"

declare decimal.simps [simp del]

definition pad2 :: "nat \<Rightarrow> pystr" where
  "pad2 n = [0x30 + n div 10, 0x30 + n mod 10]"

definition strftime :: "datetime \<Rightarrow> pystr" where
  "strftime dt =
     decimal (year dt) @ pad2 (month dt) @ pad2 (day dt) @
     pad2 (hour dt) @ pad2 (minute dt) @ pad2 (second dt)"

text \<open>
  \<open>format_ofx_datetime\<close>; its argument may be \<open>None\<close> (a missing key read with
  \<open>get\<close>), which is falsy like the empty string.
\<close>

definition format_ofx_datetime :: "pystr option \<Rightarrow> py_error + pystr" where
  "format_ofx_datetime dt_str =
     (case dt_str of
        None \<Rightarrow> Inr []
      | Some s \<Rightarrow>
          if s = [] \<or> strip s = [] then Inr []
          else and_then (strptime s) (\<lambda>dt. Inr (strftime dt @ u ''.000[+8:CST]'')))"

text \<open>
  A timestamp as the statement writes it, \<open>YYYY-MM-DD HH:MM:SS\<close>, for a year of four
  digits.
\<close>

definition timestamp :: "nat \<Rightarrow> nat \<Rightarrow> nat \<Rightarrow> nat \<Rightarrow> nat \<Rightarrow> nat \<Rightarrow> pystr" where
  "timestamp Y m d H M S =
     decimal Y @ u ''-'' @ pad2 m @ u ''-'' @ pad2 d @ u '' '' @
     pad2 H @ u '':'' @ pad2 M @ u '':'' @ pad2 S"

subsection \<open>OFX emitter\<close>

text \<open>
  \<open>generate_ofx\<close> opens the output file for writing and calls \<open>file.write\<close> once
  per line. The emitter state holds the strings written so far, in order (the file is
  their concatenation), and the translator state, which \<open>translate_field\<close> changes. An
  exception leaves the state as it is at that moment: what was written stays written.
  The strings written are taken to be encodable as UTF-8.
\<close>

record emitter =
  written :: "pystr list"
  translator :: tstate

type_synonym run = "(py_error + unit) \<times> emitter"

definition file_write :: "pystr \<Rightarrow> emitter \<Rightarrow> emitter" where
  "file_write s e = e\<lparr>written := written e @ [s]\<rparr>"

text \<open>Consecutive writes of fixed lines.\<close>

definition write_all :: "pystr list \<Rightarrow> emitter \<Rightarrow> emitter" where
  "write_all ss e = e\<lparr>written := written e @ ss\<rparr>"

text \<open>
  \<open>attempt r e k\<close>: the value of an expression that may raise, computed in state \<open>e\<close>,
  and what follows it.
\<close>

definition attempt :: "py_error + 'a \<Rightarrow> emitter \<Rightarrow> ('a \<Rightarrow> run) \<Rightarrow> run" where
  "attempt r e k = (case r of Inl x \<Rightarrow> (Inl x, e) | Inr v \<Rightarrow> k v)"

text \<open>\<open>d[k]\<close> raises \<open>KeyError\<close> on a missing key; \<open>d.get(k)\<close> is \<open>d k\<close>.\<close>

definition lookup :: "pydict \<Rightarrow> string \<Rightarrow> py_error + pystr" where
  "lookup d k = (case d k of None \<Rightarrow> Inl KeyError | Some v \<Rightarrow> Inr v)"

definition truthy :: "pystr option \<Rightarrow> bool" where
  "truthy x \<longleftrightarrow> (case x of None \<Rightarrow> False | Some s \<Rightarrow> s \<noteq> [])"

text \<open>\<open>'{}'.format(x)\<close> prints \<open>None\<close> as the word \<open>None\<close>.\<close>

definition formatted :: "pystr option \<Rightarrow> pystr" where
  "formatted x = (case x of None \<Rightarrow> u ''None'' | Some s \<Rightarrow> s)"

text \<open>\<open>x.replace("-", "")\<close>; on \<open>None\<close> the attribute lookup raises.\<close>

definition without_dashes :: "pystr option \<Rightarrow> py_error + pystr" where
  "without_dashes x =
     (case x of None \<Rightarrow> Inl AttributeError | Some s \<Rightarrow> Inr (filter (\<lambda>c. c \<noteq> 0x2D) s))"

definition preamble :: "pystr list" where
  "preamble =
     [u ''OFXHEADER:100\<newline>'',
      u ''DATA:OFXSGML\<newline>'',
      u ''VERSION:102\<newline>'',
      u ''SECURITY:NONE\<newline>'',
      u ''ENCODING:UTF-8\<newline>'',
      u ''CHARSET:NONE\<newline>'',
      u ''COMPRESSION:NONE\<newline>'',
      u ''OLDFILEUID:NONE\<newline>'',
      u ''NEWFILEUID:NONE\<newline>'',
      u ''<OFX>\<newline>'',
      u ''  <SIGNONMSGSRSV1>\<newline>'',
      u ''    <SONRS>\<newline>'',
      u ''      <STATUS>\<newline>'',
      u ''        <CODE>0</CODE>\<newline>'',
      u ''        <SEVERITY>INFO</SEVERITY>\<newline>'',
      u ''      </STATUS>\<newline>'']"

definition after_dtserver :: "pystr list" where
  "after_dtserver =
     [u ''      <LANGUAGE>ENG</LANGUAGE>\<newline>'',
      u ''      <FI>\<newline>'',
      u ''        <ORG>ALIPAY</ORG>\<newline>'',
      u ''        <FID>NOFID</FID>\<newline>'',
      u ''      </FI>\<newline>'',
      u ''    </SONRS>\<newline>'',
      u ''  </SIGNONMSGSRSV1>\<newline>'',
      u ''  <BANKMSGSRSV1>\<newline>'',
      u ''    <STMTTRNRS>\<newline>'',
      u ''      <TRNUID>1</TRNUID>\<newline>'',
      u ''      <STATUS>\<newline>'',
      u ''        <CODE>0</CODE>\<newline>'',
      u ''        <SEVERITY>INFO</SEVERITY>\<newline>'',
      u ''      </STATUS>\<newline>'',
      u ''      <STMTRS>\<newline>'',
      u ''        <CURDEF>CNY</CURDEF>\<newline>'',
      u ''        <BANKACCTFROM>\<newline>'',
      u ''          <BANKID>ALIPAY</BANKID>\<newline>'']"

definition after_acctid :: "pystr list" where
  "after_acctid =
     [u ''          <ACCTTYPE>CHECKING</ACCTTYPE>\<newline>'',
      u ''        </BANKACCTFROM>\<newline>'',
      u ''        <BANKTRANLIST>\<newline>'']"

text \<open>The thirteen closing lines, with the two balances and their dates.\<close>

definition tail_lines :: "pydict \<Rightarrow> pystr \<Rightarrow> pystr list" where
  "tail_lines metadata dt_server =
     [u ''        </BANKTRANLIST>\<newline>'',
      u ''        <LEDGERBAL>\<newline>'',
      u ''          <BALAMT>'' @ (case metadata ''total_in'' of None \<Rightarrow> [] | Some v \<Rightarrow> v)
        @ u ''</BALAMT>\<newline>'',
      u ''          <DTASOF>'' @ dt_server @ u ''</DTASOF>\<newline>'',
      u ''        </LEDGERBAL>\<newline>'',
      u ''        <AVAILBAL>\<newline>'',
      u ''          <BALAMT>'' @ (case metadata ''total_out'' of None \<Rightarrow> [] | Some v \<Rightarrow> v)
        @ u ''</BALAMT>\<newline>'',
      u ''          <DTASOF>'' @ dt_server @ u ''</DTASOF>\<newline>'',
      u ''        </AVAILBAL>\<newline>'',
      u ''      </STMTRS>\<newline>'',
      u ''    </STMTTRNRS>\<newline>'',
      u ''  </BANKMSGSRSV1>\<newline>'',
      u ''</OFX>\<newline>'']"

text \<open>The lines of one transaction block.\<close>

definition stmttrn_open :: pystr where
  "stmttrn_open = u ''          <STMTTRN>\<newline>''"

definition trntype_line :: "pystr \<Rightarrow> pystr" where
  "trntype_line ty = u ''            <TRNTYPE>'' @ ty @ u ''</TRNTYPE>\<newline>''"

definition dtposted_line :: "pystr \<Rightarrow> pystr" where
  "dtposted_line posted = u ''            <DTPOSTED>'' @ posted @ u ''</DTPOSTED>\<newline>''"

definition trnamt_line :: "pystr \<Rightarrow> pystr" where
  "trnamt_line amount = u ''            <TRNAMT>'' @ amount @ u ''</TRNAMT>\<newline>''"

definition fitid_line :: "pystr \<Rightarrow> pystr" where
  "fitid_line fitid = u ''            <FITID>'' @ fitid @ u ''</FITID>\<newline>''"

definition name_line :: "pystr \<Rightarrow> pystr" where
  "name_line name = u ''            <NAME>'' @ name @ u ''</NAME>\<newline>''"

definition memo_line :: "pystr \<Rightarrow> pystr" where
  "memo_line memo = u ''            <MEMO>'' @ memo @ u ''</MEMO>\<newline>''"

definition stmttrn_close :: pystr where
  "stmttrn_close = u ''          </STMTTRN>\<newline>''"

definition stmttrn ::
    "pystr \<Rightarrow> pystr \<Rightarrow> pystr \<Rightarrow> pystr \<Rightarrow> pystr \<Rightarrow> pystr \<Rightarrow> pystr list" where
  "stmttrn ty posted amount fitid name memo =
     [stmttrn_open, trntype_line ty, dtposted_line posted, trnamt_line amount,
      fitid_line fitid, name_line name, memo_line memo, stmttrn_close]"

definition trntype :: "pystr \<Rightarrow> pystr" where
  "trntype direction = (if direction = income_marker then u ''CREDIT'' else u ''DEBIT'')"

text \<open>
  The posted date: \<open>a or b or c\<close> over the three time fields, each read with \<open>get\<close>
  and reformatted only when the ones before it came out empty; the epoch when all are.
\<close>

definition dt_posted :: "pydict \<Rightarrow> py_error + pystr" where
  "dt_posted t =
     and_then (format_ofx_datetime (t ''payment_time'')) (\<lambda>a.
     and_then (if a \<noteq> [] then Inr a
               else format_ofx_datetime (t ''transaction_create_time'')) (\<lambda>b.
     and_then (if b \<noteq> [] then Inr b
               else format_ofx_datetime (t ''last_modified_time'')) (\<lambda>c.
     Inr (if c = [] then u ''19700101000000.000[+0:GMT]'' else c))))"

text \<open>
  A name or memo: \<open>translate_field(...) if target_lang else text\<close>, on the translator
  state of the emitter.
\<close>

definition attempt_text ::
    "service \<Rightarrow> pystr option \<Rightarrow> pystr option \<Rightarrow> pystr \<Rightarrow> emitter \<Rightarrow>
     (pystr \<Rightarrow> emitter \<Rightarrow> run) \<Rightarrow> run" where
  "attempt_text svc target_lang api_key text e k =
     (case target_lang of
        None \<Rightarrow> k text e
      | Some lang \<Rightarrow>
          if lang = [] then k text e
          else (case translate_field svc text lang api_key (translator e) of
                  (Inl x, st) \<Rightarrow> (Inl x, e\<lparr>translator := st\<rparr>)
                | (Inr shown, st) \<Rightarrow> k shown (e\<lparr>translator := st\<rparr>)))"

definition write_transaction ::
    "service \<Rightarrow> pystr option \<Rightarrow> pystr option \<Rightarrow> pydict \<Rightarrow> emitter \<Rightarrow> run" where
  "write_transaction svc target_lang api_key t e0 =
     (let e1 = file_write stmttrn_open e0 in
      attempt (lookup t ''income_or_expense'') e1 (\<lambda>direction.
      let e2 = file_write (trntype_line (trntype direction)) e1 in
      attempt (dt_posted t) e2 (\<lambda>posted.
      let e3 = file_write (dtposted_line posted) e2 in
      attempt (lookup t ''amount_cny'') e3 (\<lambda>amount.
      let e4 = file_write (trnamt_line amount) e3 in
      attempt (lookup t ''transaction_id'') e4 (\<lambda>fitid.
      let e5 = file_write (fitid_line fitid) e4 in
      attempt (lookup t ''counterparty'') e5 (\<lambda>counterparty.
      attempt_text svc target_lang api_key counterparty e5 (\<lambda>name e5'.
      let e6 = file_write (name_line name) e5' in
      attempt (lookup t ''item_name'') e6 (\<lambda>item_name.
      attempt_text svc target_lang api_key item_name e6 (\<lambda>memo e6'.
      let e7 = file_write (memo_line memo) e6' in
      (Inr (), file_write stmttrn_close e7))))))))))"

fun write_transactions ::
    "service \<Rightarrow> pystr option \<Rightarrow> pystr option \<Rightarrow> pydict list \<Rightarrow> emitter \<Rightarrow> run" where
  "write_transactions svc target_lang api_key [] e = (Inr (), e)"
| "write_transactions svc target_lang api_key (t # ts) e =
     (case write_transaction svc target_lang api_key t e of
        (Inl x, e') \<Rightarrow> (Inl x, e')
      | (Inr _, e') \<Rightarrow> write_transactions svc target_lang api_key ts e')"

text \<open>
  \<open>generate_ofx\<close>. The output path does not matter here: the file it names holds the
  concatenation of \<open>written\<close> when the function ends, normally or not. The cache
  dictionary comes in with the translator state \<open>st\<close>.
\<close>

definition generate_ofx ::
    "service \<Rightarrow> pydict list \<Rightarrow> pydict \<Rightarrow> pystr option \<Rightarrow> pystr option \<Rightarrow> tstate \<Rightarrow> run" where
  "generate_ofx svc transactions metadata target_lang api_key st =
     (let e0 = write_all preamble \<lparr>written = [], translator = st\<rparr> in
      attempt (if truthy (metadata ''export_time'')
               then format_ofx_datetime (metadata ''export_time'')
               else Inr (u ''20240101000000.000[+8:CST]'')) e0 (\<lambda>dt_server.
      let e1 = file_write (u ''      <DTSERVER>'' @ dt_server @ u ''</DTSERVER>\<newline>'') e0;
          e2 = write_all after_dtserver e1;
          e3 = file_write (u ''          <ACCTID>'' @ formatted (metadata ''account'')
                 @ u ''</ACCTID>\<newline>'') e2;
          e4 = write_all after_acctid e3 in
      attempt (without_dashes (metadata ''start_date'')) e4 (\<lambda>start_date.
      let e5 = file_write (u ''          <DTSTART>'' @ start_date @ u ''000000.000[+8:CST]''
                 @ u ''</DTSTART>\<newline>'') e4 in
      attempt (without_dashes (metadata ''end_date'')) e5 (\<lambda>end_date.
      let e6 = file_write (u ''          <DTEND>'' @ end_date @ u ''000000.000[+8:CST]''
                 @ u ''</DTEND>\<newline>'') e5 in
      case write_transactions svc target_lang api_key transactions e6 of
        (Inl x, e7) \<Rightarrow> (Inl x, e7)
      | (Inr _, e7) \<Rightarrow> (Inr (), write_all (tail_lines metadata dt_server) e7)))))"

text \<open>
  The lines \<open>generate_ofx\<close> writes before the first transaction block: the server
  date \<open>dt_server\<close> and the two dates of the statement are the only parts that can fail.
\<close>

definition head_lines :: "pydict \<Rightarrow> pystr \<Rightarrow> pystr \<Rightarrow> pystr \<Rightarrow> pystr list" where
  "head_lines metadata dt_server start_date end_date =
     preamble @
     [u ''      <DTSERVER>'' @ dt_server @ u ''</DTSERVER>\<newline>''] @
     after_dtserver @
     [u ''          <ACCTID>'' @ formatted (metadata ''account'') @ u ''</ACCTID>\<newline>''] @
     after_acctid @
     [u ''          <DTSTART>'' @ start_date @ u ''000000.000[+8:CST]'' @ u ''</DTSTART>\<newline>'',
      u ''          <DTEND>'' @ end_date @ u ''000000.000[+8:CST]'' @ u ''</DTEND>\<newline>'']"

text \<open>Inputs for concrete runs: a service that answers nothing, and two records.\<close>

definition no_service :: service where
  "no_service earlier text target_lang api_key = Http_error"

definition tstate0 :: tstate where
  "tstate0 = \<lparr>cache = [], calls = []\<rparr>"

definition income_record :: pydict where
  "income_record =
     [''transaction_id'' \<mapsto> u ''T1'', ''payment_time'' \<mapsto> u ''2024-01-15 13:45:00'',
      ''counterparty'' \<mapsto> u ''Shop'', ''item_name'' \<mapsto> u ''Tea'',
      ''amount_cny'' \<mapsto> u ''12.50'', ''income_or_expense'' \<mapsto> income_marker]"

definition expense_record :: pydict where
  "expense_record =
     [''transaction_id'' \<mapsto> u ''T2'', ''payment_time'' \<mapsto> [],
      ''counterparty'' \<mapsto> u ''Cafe'', ''item_name'' \<mapsto> u ''Cake'',
      ''amount_cny'' \<mapsto> u ''7.00'', ''income_or_expense'' \<mapsto> []]"

definition undated_record :: pydict where
  "undated_record =
     [''transaction_id'' \<mapsto> u ''T3'', ''payment_time'' \<mapsto> u ''2024-01-15'',
      ''counterparty'' \<mapsto> u ''Shop'', ''item_name'' \<mapsto> u ''Tea'',
      ''amount_cny'' \<mapsto> u ''12.50'', ''income_or_expense'' \<mapsto> income_marker]"

text \<open>
  \<open>block_of t b\<close>: the eight lines \<open>b\<close> are a transaction block of the record \<open>t\<close>,
  with its type, amount and id; the date, name and memo are whatever was computed.
\<close>

definition block_of :: "pydict \<Rightarrow> pystr list \<Rightarrow> bool" where
  "block_of t b \<longleftrightarrow>
     (\<exists>d posted amount fitid name memo.
        t ''income_or_expense'' = Some d \<and> t ''amount_cny'' = Some amount \<and>
        t ''transaction_id'' = Some fitid \<and>
        b = stmttrn (trntype d) posted amount fitid name memo)"

definition totals_metadata :: pydict where
  "totals_metadata = metadata0(''total_in'' \<mapsto> u ''10.00'', ''total_out'' \<mapsto> u ''5.50'')"

definition dated_metadata :: pydict where
  "dated_metadata = metadata0(''export_time'' \<mapsto> u ''2024-01-15'')"

section \<open>Properties\<close>

subsection \<open>Cache-backed field translation\<close>

lemma update_absent_appends:
  "map_of al k = None \<Longrightarrow> AList.update k v al = al @ [(k, v)]"
  by (induction al) (auto split: if_splits)

text \<open>
  C10. Whatever the cache, the text, the target language, the credentials and the
  service: after a call of \<open>translate_field\<close> every key other than the argument text has
  the binding it had before (present keys stay, with the same value, and no other key
  appears), an entry the argument text already had is kept, and the cache has grown by at
  most one entry, which is for the argument text.
\<close>

theorem translate_field_frame:
  "(\<forall>k. k \<noteq> text \<longrightarrow>
        map_of (cache (snd (translate_field svc text lang key st))) k = map_of (cache st) k) \<and>
   (\<forall>v. map_of (cache st) text = Some v \<longrightarrow>
        cache (snd (translate_field svc text lang key st)) = cache st) \<and>
   (\<exists>new. cache (snd (translate_field svc text lang key st)) = cache st @ new \<and>
        length new \<le> 1 \<and> (\<forall>e \<in> set new. fst e = text))"
proof (cases "map_of (cache st) text")
  case (Some t)
  then show ?thesis by (simp add: translate_field_def)
next
  case None
  show ?thesis
  proof (cases "translate_text svc (calls st) text lang key")
    case (Inl e)
    with None show ?thesis by (simp add: translate_field_def)
  next
    case (Inr t)
    with None show ?thesis
      by (auto simp: translate_field_def update_absent_appends map_add_def split: option.splits)
  qed
qed

theorem translate_field_frame_witness:
  "map_of (cache (snd (translate_field (\<lambda>_ _ _ _. Translated (u ''Pear'')) (u ''li'') (u ''en'')
        (Some (u ''k'')) \<lparr>cache = [(u ''ping'', u ''Apple'')], calls = []\<rparr>))) (u ''ping'')
     = Some (u ''Apple'') \<and>
   u ''ping'' \<noteq> u ''li'' \<and>
   cache (snd (translate_field (\<lambda>_ _ _ _. Translated (u ''Pear'')) (u ''li'') (u ''en'')
        (Some (u ''k'')) \<lparr>cache = [(u ''ping'', u ''Apple'')], calls = []\<rparr>))
     = [(u ''ping'', u ''Apple''), (u ''li'', u ''Pear'')] \<and>
   map_of [(u ''li'', u ''Pear'')] (u ''li'') = Some (u ''Pear'') \<and>
   cache (snd (translate_field (\<lambda>_ _ _ _. Translated (u ''Plum'')) (u ''li'') (u ''en'')
        (Some (u ''k'')) \<lparr>cache = [(u ''li'', u ''Pear'')], calls = []\<rparr>))
     = [(u ''li'', u ''Pear'')]"
  using translate_field_frame [of "u ''li''" "\<lambda>_ _ _ _. Translated (u ''Pear'')" "u ''en''"
      "Some (u ''k'')" "\<lparr>cache = [(u ''ping'', u ''Apple'')], calls = []\<rparr>"]
  by (simp add: translate_field_def translate_text_def u_def)

text \<open>
  C4, as the code has it. With no credentials (the guard of \<open>translate_text\<close>) or a
  failing service the first call raises and stores nothing, so the second call invokes the
  translator again: on an empty cache and without credentials both calls raise
  \<open>ValueError\<close> and the translator has been invoked twice.
\<close>

theorem translate_field_twice_counterexample:
  "fst (translate_field (\<lambda>_ _ _ _. Http_error) (u ''li'') (u ''en'') None
          \<lparr>cache = [], calls = []\<rparr>) = Inl ValueError \<and>
   fst (translate_field (\<lambda>_ _ _ _. Http_error) (u ''li'') (u ''en'') None
          (snd (translate_field (\<lambda>_ _ _ _. Http_error) (u ''li'') (u ''en'') None
             \<lparr>cache = [], calls = []\<rparr>))) = Inl ValueError \<and>
   length (calls (snd (translate_field (\<lambda>_ _ _ _. Http_error) (u ''li'') (u ''en'') None
          (snd (translate_field (\<lambda>_ _ _ _. Http_error) (u ''li'') (u ''en'') None
             \<lparr>cache = [], calls = []\<rparr>))))) = 2"
  by (simp add: translate_field_def translate_text_def)

text \<open>
  C4, amended. Whenever the first of two calls with the same text returns a string
  \<open>s\<close>: the second call, on the cache the first one left, returns the same \<open>s\<close> and
  leaves the state as it is (no invocation of the translator); the first call invoked the
  translator exactly once if the text was not a key of the cache and not at all if it was;
  and \<open>s\<close> is the cached translation followed by the original text in parentheses.
\<close>

theorem translate_field_twice:
  "translate_field svc text lang key st = (Inr s, st1) \<Longrightarrow>
     translate_field svc text lang key st1 = (Inr s, st1) \<and>
     calls st1 = calls st @ (if map_of (cache st) text = None then [(text, lang, key)] else []) \<and>
     (\<exists>t. map_of (cache st1) text = Some t \<and> s = t @ u '' ('' @ text @ u '')'')"
proof (cases "map_of (cache st) text")
  case (Some t)
  assume "translate_field svc text lang key st = (Inr s, st1)"
  with Some have "st1 = st" and "s = t @ u '' ('' @ text @ u '')''"
    by (simp_all add: translate_field_def)
  with Some show ?thesis by (simp add: translate_field_def)
next
  case None
  assume run: "translate_field svc text lang key st = (Inr s, st1)"
  show ?thesis
  proof (cases "translate_text svc (calls st) text lang key")
    case (Inl e)
    with None run show ?thesis by (simp add: translate_field_def)
  next
    case (Inr t)
    with None run have s: "s = t @ u '' ('' @ text @ u '')''"
      and st1: "st1 = st\<lparr>calls := calls st @ [(text, lang, key)],
                         cache := AList.update text t (cache st)\<rparr>"
      by (auto simp: translate_field_def)
    have hit: "map_of (cache st1) text = Some t"
      by (simp add: st1 update_conv')
    from hit s have "translate_field svc text lang key st1 = (Inr s, st1)"
      by (simp add: translate_field_def)
    with hit s None st1 show ?thesis by simp
  qed
qed

theorem translate_field_twice_witness:
  "translate_field (\<lambda>_ _ _ _. Translated (u ''Pear'')) (u ''li'') (u ''en'') (Some (u ''k''))
       \<lparr>cache = [], calls = []\<rparr>
     = (Inr (u ''Pear (li)''),
        \<lparr>cache = [(u ''li'', u ''Pear'')], calls = [(u ''li'', u ''en'', Some (u ''k''))]\<rparr>) \<and>
   translate_field (\<lambda>_ _ _ _. Translated (u ''Pear'')) (u ''li'') (u ''en'') (Some (u ''k''))
       \<lparr>cache = [(u ''li'', u ''Pear'')], calls = [(u ''li'', u ''en'', Some (u ''k''))]\<rparr>
     = (Inr (u ''Pear (li)''),
        \<lparr>cache = [(u ''li'', u ''Pear'')], calls = [(u ''li'', u ''en'', Some (u ''k''))]\<rparr>)"
proof -
  have first: "translate_field (\<lambda>_ _ _ _. Translated (u ''Pear'')) (u ''li'') (u ''en'')
       (Some (u ''k'')) \<lparr>cache = [], calls = []\<rparr>
     = (Inr (u ''Pear (li)''),
        \<lparr>cache = [(u ''li'', u ''Pear'')], calls = [(u ''li'', u ''en'', Some (u ''k''))]\<rparr>)"
    by (simp add: translate_field_def translate_text_def u_def)
  from translate_field_twice [OF first] first show ?thesis by simp
qed

subsection \<open>Translation cache\<close>

lemma universal_newlines_id: "13 \<notin> set s \<Longrightarrow> universal_newlines s = s"
  by (induction s rule: universal_newlines.induct) auto

lemma lines_from_line:
  "10 \<notin> set l \<Longrightarrow> lines_from cur (l @ 10 # rest) = (cur @ l @ [10]) # lines_from [] rest"
  by (induction l arbitrary: cur) auto

lemma split_from_pipe:
  "124 \<notin> set k \<Longrightarrow> 124 \<notin> set v \<Longrightarrow> split_from [124] cur (k @ 124 # v) = [cur @ k, v]"
proof (induction k arbitrary: cur)
  case Nil
  have "\<And>c. 124 \<notin> set v \<Longrightarrow> split_from [124] c v = [c @ v]"
    by (induction v) auto
  then show ?case using Nil by simp
next
  case (Cons a k)
  then show ?case by simp
qed

lemma lstrip_fix: "lstrip k = k \<longleftrightarrow> k = [] \<or> \<not> py_isspace (hd k)"
  by (simp add: lstrip_def dropWhile_eq_self_iff)

lemma rstrip_fix: "rstrip v = v \<longleftrightarrow> v = [] \<or> \<not> py_isspace (last v)"
proof -
  have "rstrip v = v \<longleftrightarrow> dropWhile py_isspace (rev v) = rev v"
    unfolding rstrip_def by (metis rev_rev_ident)
  then show ?thesis by (simp add: dropWhile_eq_self_iff hd_rev)
qed

lemma lstrip_append: "lstrip k = k \<Longrightarrow> \<not> py_isspace c \<Longrightarrow> lstrip (k @ c # r) = k @ c # r"
  by (cases k) (auto simp: lstrip_fix)

lemma rstrip_append: "rstrip v = v \<Longrightarrow> \<not> py_isspace c \<Longrightarrow> rstrip (k @ c # v) = k @ c # v"
  by (cases v rule: rev_cases) (auto simp: rstrip_fix)

lemma rstrip_newline: "rstrip (s @ [10]) = rstrip s"
  by (simp add: rstrip_def py_isspace_def)

lemma pipe_no_space: "\<not> py_isspace 124"
  by (simp add: py_isspace_def)

lemma strip_entry_line:
  assumes "plain_entry (k, v)"
  shows "strip (entry_line (k, v)) = k @ 124 # v"
proof -
  from assms have k: "lstrip k = k" and v: "rstrip v = v"
    by (simp_all add: plain_entry_def)
  have "entry_line (k, v) = k @ 124 # (v @ [10])"
    by (simp add: entry_line_def u_def)
  then have "lstrip (entry_line (k, v)) = (k @ 124 # v) @ [10]"
    using lstrip_append [OF k pipe_no_space] by simp
  then have "strip (entry_line (k, v)) = rstrip (k @ 124 # v)"
    unfolding strip_def by (simp only: rstrip_newline)
  with rstrip_append [OF v pipe_no_space] show ?thesis by simp
qed

lemma load_lines_entries:
  "\<forall>e \<in> set es. plain_entry e \<Longrightarrow> distinct (map fst (acc @ es)) \<Longrightarrow>
     load_lines acc (map entry_line es) = Inr (acc @ es)"
proof (induction es arbitrary: acc)
  case Nil
  then show ?case by simp
next
  case (Cons e es)
  obtain k v where e: "e = (k, v)" by (cases e)
  from Cons.prems e have plain: "plain_entry (k, v)" by simp
  then have split: "split_sep (u ''|'') (strip (entry_line (k, v))) = [k, v]"
    using split_from_pipe [of k v "[]"]
    by (simp add: strip_entry_line split_sep_def u_def plain_entry_def)
  from Cons.prems e have "map_of acc k = None"
    by (simp add: map_of_eq_None_iff)
  then have upd: "AList.update k v acc = acc @ [(k, v)]"
    by (rule update_absent_appends)
  from Cons.prems e have "distinct (map fst ((acc @ [(k, v)]) @ es))" by simp
  with Cons.IH [of "acc @ [(k, v)]"] Cons.prems
  have "load_lines (acc @ [(k, v)]) (map entry_line es) = Inr ((acc @ [(k, v)]) @ es)"
    by simp
  with split upd e show ?case by simp
qed

lemma entry_line_shape:
  "plain_entry e \<Longrightarrow> \<exists>l. entry_line e = l @ [10] \<and> 10 \<notin> set l \<and> 13 \<notin> set l"
  by (auto simp: plain_entry_def entry_line_def u_def)

lemma lines_from_entries:
  "\<forall>e \<in> set es. plain_entry e \<Longrightarrow> lines_from [] (concat (map entry_line es)) = map entry_line es"
proof (induction es)
  case Nil
  then show ?case by simp
next
  case (Cons e es)
  then obtain l where l: "entry_line e = l @ [10]" "10 \<notin> set l"
    using entry_line_shape [of e] by auto
  with Cons lines_from_line [of l "[]" "concat (map entry_line es)"] show ?case by simp
qed

lemma no_cr_entries:
  "\<forall>e \<in> set es. plain_entry e \<Longrightarrow> 13 \<notin> set (concat (map entry_line es))"
  by (auto simp: plain_entry_def entry_line_def u_def)

lemma encodable_entry_line: "plain_entry e \<Longrightarrow> encodable (entry_line e)"
  by (simp add: plain_entry_def encodable_def entry_line_def scalar_value_def u_def)

lemma write_entries_plain:
  "\<forall>e \<in> set es. plain_entry e \<Longrightarrow>
     write_entries acc es = (None, acc @ concat (map entry_line es))"
  by (induction es arbitrary: acc) (simp_all add: encodable_entry_line)

text \<open>
  C3, amended. For every dictionary (distinct keys) all of whose entries are plain in the
  sense of \<open>plain_entry\<close> (every code point of either string is a Unicode scalar value,
  no pipe, no \<open>\n\<close> or \<open>\r\<close> in either string, no leading whitespace in the original,
  no trailing whitespace in the translation), saving it raises nothing, and loading the
  same path again yields the dictionary saved, entries in the same order.
\<close>

theorem cache_roundtrip:
  assumes "distinct (map fst tr)" and "\<forall>e \<in> set tr. plain_entry e"
  shows "fst (save_translations_map tr file fs) = None \<and>
         load_translations_map file (snd (save_translations_map tr file fs)) = Inr tr"
proof -
  have saved: "save_translations_map tr file fs
      = (None, fs(file \<mapsto> concat (map entry_line tr)))"
    using write_entries_plain [OF assms(2), of "[]"]
    by (simp add: save_translations_map_def)
  have "universal_newlines (concat (map entry_line tr)) = concat (map entry_line tr)"
    using assms(2) by (intro universal_newlines_id no_cr_entries)
  then have "readlines (concat (map entry_line tr)) = map entry_line tr"
    using assms(2) by (simp add: readlines_def lines_from_entries)
  with load_lines_entries [of tr "[]"] assms saved show ?thesis
    by (simp add: load_translations_map_def)
qed

theorem cache_roundtrip_witness:
  "distinct (map fst [([0x82F9, 0x679C], u ''Apple'')]) \<and>
   plain_entry ([0x82F9, 0x679C], u ''Apple'') \<and>
   fst (save_translations_map [([0x82F9, 0x679C], u ''Apple'')] (u ''translations.txt'') Map.empty)
     = None \<and>
   load_translations_map (u ''translations.txt'')
     (snd (save_translations_map [([0x82F9, 0x679C], u ''Apple'')] (u ''translations.txt'')
        Map.empty))
     = Inr [([0x82F9, 0x679C], u ''Apple'')]"
proof -
  have d: "distinct (map fst [([0x82F9, 0x679C], u ''Apple'')])" by simp
  have p: "plain_entry ([0x82F9, 0x679C::nat], u ''Apple'')"
    by (simp add: plain_entry_def encodable_def scalar_value_def u_def lstrip_def rstrip_def
        py_isspace_def)
  from p have "\<forall>e \<in> set [([0x82F9, 0x679C], u ''Apple'')]. plain_entry e" by simp
  from cache_roundtrip [OF d this] d p show ?thesis by simp
qed

text \<open>
  C3, as stated. Excluding the pipe is not enough. The translation \<open>b \<close>, with a
  trailing blank and no pipe, is saved and read back as \<open>b\<close>, because every line is
  stripped; and a key that is a lone surrogate, with no pipe either, cannot be written:
  saving raises \<open>UnicodeEncodeError\<close> and leaves an empty file.
\<close>

theorem cache_roundtrip_counterexample:
  "124 \<notin> set (u ''a'') \<and> 124 \<notin> set (u ''b '') \<and>
   fst (save_translations_map [(u ''a'', u ''b '')] (u ''t'') Map.empty) = None \<and>
   load_translations_map (u ''t'')
     (snd (save_translations_map [(u ''a'', u ''b '')] (u ''t'') Map.empty))
     = Inr [(u ''a'', u ''b'')] \<and>
   map_of [(u ''a'', u ''b'')] (u ''a'') \<noteq> map_of [(u ''a'', u ''b '')] (u ''a'') \<and>
   124 \<notin> set [0xD800::nat] \<and> 124 \<notin> set (u ''x'') \<and>
   fst (save_translations_map [([0xD800], u ''x'')] (u ''t'') Map.empty)
     = Some UnicodeEncodeError \<and>
   load_translations_map (u ''t'')
     (snd (save_translations_map [([0xD800], u ''x'')] (u ''t'') Map.empty)) = Inr []"
  by (simp add: load_translations_map_def save_translations_map_def entry_line_def readlines_def
      encodable_def scalar_value_def split_sep_def strip_def lstrip_def rstrip_def
      py_isspace_def u_def)

subsection \<open>Statement reader\<close>

lemma collect_rows_filter:
  "collect_rows acc rows = acc @ map transaction_of (filter (\<lambda>row. 17 \<le> length row) rows)"
  by (induction rows arbitrary: acc) (auto simp: not_less)

lemma scan_lines_section:
  "scan_lines md lines = Inr (md', bound) \<Longrightarrow> bound = transaction_section lines"
proof (induction lines arbitrary: md)
  case Nil
  then show ?case by simp
next
  case (Cons line rest)
  then show ?case
    by (auto simp: and_then_def split: sum.splits if_splits)
qed

text \<open>
  C1, amended. Whenever \<open>parse_alipay_file\<close> returns, the file was read under some
  encoding of the list, its lines hold a transaction section, and the returned
  transactions are, in order, exactly the rows of that section with at least 17 fields
  (the guard is \<open>len(row) < 17\<close>): a row is accepted if and only if it has 17 fields or
  more, and the length of the returned list is the number of such rows.
\<close>

theorem parse_alipay_file_rows:
  assumes "parse_alipay_file reader file = Inr (transactions, metadata)"
  shows "\<exists>lines body rows.
           read_with file encoding_list = Inr lines \<and>
           transaction_section lines = Some body \<and>
           reader body = Inr rows \<and>
           transactions = map transaction_of (filter (\<lambda>row. 17 \<le> length row) rows) \<and>
           length transactions = length (filter (\<lambda>row. 17 \<le> length row) rows)"
proof -
  from assms obtain lines where lines: "read_with file encoding_list = Inr lines"
    by (auto simp: parse_alipay_file_def and_then_def split: sum.splits)
  with assms obtain md bound where scan: "scan_lines metadata0 lines = Inr (md, bound)"
    by (auto simp: parse_alipay_file_def and_then_def split: sum.splits)
  with assms lines obtain body where bound: "bound = Some body"
    by (auto simp: parse_alipay_file_def and_then_def split: option.splits)
  with assms lines scan obtain rows where rows: "reader body = Inr rows"
    by (auto simp: parse_alipay_file_def and_then_def split: sum.splits)
  with assms lines scan bound
  have "transactions = map transaction_of (filter (\<lambda>row. 17 \<le> length row) rows)"
    by (simp add: parse_alipay_file_def and_then_def collect_rows_filter)
  moreover from scan bound have "transaction_section lines = Some body"
    using scan_lines_section by fastforce
  ultimately show ?thesis using lines rows by simp
qed

lemma row_of_17_fields:
  "csv_reader [row_of_17] = Inr [[u ''T1'', u ''M1'', u ''c'', u ''p'', u ''m'', u ''s'', u ''t'',
      u ''Shop'', u ''Tea'', u ''12.50'', u ''in'', u ''ok'', u ''0'', u ''0'', u ''r'', u ''f'', u '''']]"
  by (simp add: csv_reader_def row_of_17_def u_def parser0_def and_then_def parse_process_char_def
      start_field_def is_newline_def end_of_record_def parse_save_field_def parse_add_char_def)

lemma row_of_16_fields:
  "csv_reader [row_of_16] = Inr [[u ''T1'', u ''M1'', u ''c'', u ''p'', u ''m'', u ''s'', u ''t'',
      u ''Shop'', u ''Tea'', u ''12.50'', u ''in'', u ''ok'', u ''0'', u ''0'', u ''r'', u ''f'']]"
  by (simp add: csv_reader_def row_of_16_def u_def parser0_def and_then_def parse_process_char_def
      start_field_def is_newline_def end_of_record_def parse_save_field_def parse_add_char_def)

lemma header_scan: "scan_lines metadata0 (header_line # rest) = Inr (metadata0, Some rest)"
  by (simp add: header_line_def scan_line_def startswith_def and_then_def strip_def lstrip_def rstrip_def py_isspace_def
     label_transaction_id_def label_account_def label_start_date_def label_total_def label_export_time_def u_def)

lemma utf8_file_read: "read_with (utf8_file lines) encoding_list = Inr lines"
  by (simp add: utf8_file_def encoding_list_def)

theorem parse_alipay_file_rows_witness:
  "parse_alipay_file csv_reader (utf8_file [header_line, row_of_17, row_of_16])
     = Inr ([transaction_of [u ''T1'', u ''M1'', u ''c'', u ''p'', u ''m'', u ''s'', u ''t'',
              u ''Shop'', u ''Tea'', u ''12.50'', u ''in'', u ''ok'', u ''0'', u ''0'', u ''r'',
              u ''f'', u '''']], metadata0) \<and>
   (\<exists>lines body rows.
       read_with (utf8_file [header_line, row_of_17, row_of_16]) encoding_list = Inr lines \<and>
       transaction_section lines = Some body \<and>
       csv_reader body = Inr rows \<and>
       [transaction_of [u ''T1'', u ''M1'', u ''c'', u ''p'', u ''m'', u ''s'', u ''t'',
              u ''Shop'', u ''Tea'', u ''12.50'', u ''in'', u ''ok'', u ''0'', u ''0'', u ''r'',
              u ''f'', u '''']]
         = map transaction_of (filter (\<lambda>row. 17 \<le> length row) rows) \<and>
       length [transaction_of [u ''T1'', u ''M1'', u ''c'', u ''p'', u ''m'', u ''s'', u ''t'',
              u ''Shop'', u ''Tea'', u ''12.50'', u ''in'', u ''ok'', u ''0'', u ''0'', u ''r'',
              u ''f'', u '''']]
         = length (filter (\<lambda>row. 17 \<le> length row) rows))"
proof -
  have rows: "csv_reader [row_of_17, row_of_16]
      = Inr [[u ''T1'', u ''M1'', u ''c'', u ''p'', u ''m'', u ''s'', u ''t'', u ''Shop'', u ''Tea'',
               u ''12.50'', u ''in'', u ''ok'', u ''0'', u ''0'', u ''r'', u ''f'', u ''''],
             [u ''T1'', u ''M1'', u ''c'', u ''p'', u ''m'', u ''s'', u ''t'', u ''Shop'', u ''Tea'',
               u ''12.50'', u ''in'', u ''ok'', u ''0'', u ''0'', u ''r'', u ''f'']]"
    by (simp add: csv_reader_def row_of_17_def row_of_16_def u_def parser0_def and_then_def
        parse_process_char_def start_field_def is_newline_def end_of_record_def
        parse_save_field_def parse_add_char_def)
  have run: "parse_alipay_file csv_reader (utf8_file [header_line, row_of_17, row_of_16])
     = Inr ([transaction_of [u ''T1'', u ''M1'', u ''c'', u ''p'', u ''m'', u ''s'', u ''t'',
              u ''Shop'', u ''Tea'', u ''12.50'', u ''in'', u ''ok'', u ''0'', u ''0'', u ''r'',
              u ''f'', u '''']], metadata0)"
    by (simp add: parse_alipay_file_def utf8_file_read header_scan rows and_then_def
        del: scan_lines.simps)
  from parse_alipay_file_rows [OF run] run show ?thesis by simp
qed

text \<open>
  C1, as stated. A row with exactly 16 fields is not accepted: for a statement whose
  transaction section is the single row \<open>row_of_16\<close>, which the reader splits into 16
  fields, \<open>parse_alipay_file\<close> returns no transaction at all.
\<close>

theorem parse_alipay_file_rows_counterexample:
  "csv_reader [row_of_16]
     = Inr [[u ''T1'', u ''M1'', u ''c'', u ''p'', u ''m'', u ''s'', u ''t'', u ''Shop'', u ''Tea'',
             u ''12.50'', u ''in'', u ''ok'', u ''0'', u ''0'', u ''r'', u ''f'']] \<and>
   length [u ''T1'', u ''M1'', u ''c'', u ''p'', u ''m'', u ''s'', u ''t'', u ''Shop'', u ''Tea'',
             u ''12.50'', u ''in'', u ''ok'', u ''0'', u ''0'', u ''r'', u ''f''] = 16 \<and>
   parse_alipay_file csv_reader (utf8_file [header_line, row_of_16]) = Inr ([], metadata0)"
  by (simp add: parse_alipay_file_def utf8_file_read header_scan row_of_16_fields and_then_def
      del: scan_lines.simps)

lemma scan_categories_error: "scan_categories md cats = Inl e \<Longrightarrow> e = IndexError"
proof (induction cats arbitrary: md)
  case Nil
  then show ?case by simp
next
  case (Cons cat cats)
  then show ?case
    by (auto simp: and_then_def item_def split: if_splits)
qed

lemma scan_line_error: "scan_line md line = Inl e \<Longrightarrow> e = IndexError"
  unfolding scan_line_def Let_def
  by (auto simp: and_then_def item_def split: if_splits dest: scan_categories_error)

lemma scan_lines_no_header:
  "\<forall>line \<in> set lines. \<not> startswith line label_transaction_id \<Longrightarrow>
     scan_lines md lines = Inl IndexError \<or> (\<exists>md'. scan_lines md lines = Inr (md', None))"
proof (induction lines arbitrary: md)
  case Nil
  then show ?case by simp
next
  case (Cons line rest)
  show ?case
  proof (cases "scan_line md line")
    case (Inl e)
    then show ?thesis using scan_line_error [OF Inl] by (simp add: and_then_def)
  next
    case (Inr md1)
    with Cons.prems Cons.IH [of md1] show ?thesis by (simp add: and_then_def)
  qed
qed

text \<open>
  C9. For every file that decodes and in which no line starts with the transaction header
  label, \<open>parse_alipay_file\<close> raises: \<open>UnboundLocalError\<close> when the header lines
  were scanned without error (\<open>transaction_lines\<close> is read unbound), or the
  \<open>IndexError\<close> of a malformed header line before that. It never returns an empty list
  with the metadata.
\<close>

theorem parse_alipay_file_no_header:
  assumes "read_with file encoding_list = Inr lines"
    and "\<forall>line \<in> set lines. \<not> startswith line label_transaction_id"
  shows "parse_alipay_file reader file = Inl UnboundLocalError \<or>
         parse_alipay_file reader file = Inl IndexError"
  using scan_lines_no_header [OF assms(2), of metadata0] assms(1)
  by (auto simp: parse_alipay_file_def and_then_def)

theorem parse_alipay_file_no_header_witness:
  "read_with (utf8_file [u ''no header here\<newline>'']) encoding_list = Inr [u ''no header here\<newline>''] \<and>
   \<not> startswith (u ''no header here\<newline>'') label_transaction_id \<and>
   parse_alipay_file csv_reader (utf8_file [u ''no header here\<newline>'']) = Inl UnboundLocalError"
proof -
  have r: "read_with (utf8_file [u ''no header here\<newline>'']) encoding_list = Inr [u ''no header here\<newline>'']"
    by (rule utf8_file_read)
  have n: "\<not> startswith (u ''no header here\<newline>'') label_transaction_id"
    by (simp add: startswith_def label_transaction_id_def u_def)
  then have a: "\<forall>line \<in> set [u ''no header here\<newline>'']. \<not> startswith line label_transaction_id"
    by simp
  have "parse_alipay_file csv_reader (utf8_file [u ''no header here\<newline>'']) \<noteq> Inl IndexError"
    by (simp add: parse_alipay_file_def utf8_file_read scan_line_def startswith_def and_then_def
        strip_def lstrip_def rstrip_def py_isspace_def label_transaction_id_def label_account_def
        label_start_date_def label_total_def label_export_time_def u_def)
  with parse_alipay_file_no_header [OF r a, of csv_reader] r n show ?thesis by simp
qed

lemma read_with_none:
  "\<forall>encoding \<in> set encodings. file encoding = Inl UnicodeDecodeError \<Longrightarrow>
     read_with file encodings = Inl TypeError"
  by (induction encodings) (simp_all add: new_UnicodeDecodeError_def)

lemma read_with_first:
  "\<forall>e \<in> set before. file e = Inl UnicodeDecodeError \<Longrightarrow> file encoding = Inr lines \<Longrightarrow>
     read_with file (before @ encoding # after) = Inr lines"
  by (induction before) simp_all

text \<open>
  C6, what the code does. When no encoding of the list decodes the file,
  \<open>parse_alipay_file\<close> raises \<open>TypeError\<close>, not a decoding error: the \<open>else\<close>
  branch calls \<open>UnicodeDecodeError\<close> with one argument, and the constructor wants five.
  When some encoding decodes the file, the lines read are those of the first such encoding
  in the list.
\<close>

theorem parse_alipay_file_undecodable:
  "((\<forall>encoding \<in> set encoding_list. file encoding = Inl UnicodeDecodeError) \<longrightarrow>
      parse_alipay_file reader file = Inl TypeError) \<and>
   (\<forall>before encoding after lines.
      encoding_list = before @ encoding # after \<and>
      (\<forall>e \<in> set before. file e = Inl UnicodeDecodeError) \<and> file encoding = Inr lines \<longrightarrow>
      read_with file encoding_list = Inr lines)"
proof (intro conjI impI allI)
  assume "\<forall>encoding \<in> set encoding_list. file encoding = Inl UnicodeDecodeError"
  then show "parse_alipay_file reader file = Inl TypeError"
    by (simp add: parse_alipay_file_def and_then_def read_with_none)
next
  fix before encoding after lines
  assume "encoding_list = before @ encoding # after \<and>
      (\<forall>e \<in> set before. file e = Inl UnicodeDecodeError) \<and> file encoding = Inr lines"
  then have split: "encoding_list = before @ encoding # after"
    and failed: "\<forall>e \<in> set before. file e = Inl UnicodeDecodeError"
    and decoded: "file encoding = Inr lines"
    by simp_all
  show "read_with file encoding_list = Inr lines"
    unfolding split by (rule read_with_first [OF failed decoded])
qed

theorem parse_alipay_file_undecodable_witness:
  "undecodable_file ''utf-8'' = Inl UnicodeDecodeError \<and>
   undecodable_file ''gbk'' = Inl UnicodeDecodeError \<and>
   undecodable_file ''gb2312'' = Inl UnicodeDecodeError \<and>
   parse_alipay_file csv_reader undecodable_file = Inl TypeError \<and>
   gbk_file ''utf-8'' = Inl UnicodeDecodeError \<and>
   gbk_file ''gbk'' = Inr [u ''gbk''] \<and>
   gbk_file ''gb2312'' = Inr [u ''gb2312''] \<and>
   read_with gbk_file encoding_list = Inr [u ''gbk'']"
  using parse_alipay_file_undecodable [of undecodable_file csv_reader]
  by (simp add: undecodable_file_def gbk_file_def encoding_list_def)

subsection \<open>Date reformatting\<close>

lemma digit_value_ascii: "n < 10 \<Longrightarrow> digit_value (0x30 + n) = Some n"
  by (simp add: digit_value_def decimal_zeros_def)

lemma digit_value_less: "digit_value c = Some v \<Longrightarrow> v < 10"
  by (auto simp: digit_value_def dest!: find_Some_iff [THEN iffD1])

lemma between_ascii: "between lo hi (0x30 + n) \<longleftrightarrow> lo \<le> n \<and> n \<le> hi"
  by (simp add: between_def)

lemma any_digit_ascii: "n < 10 \<Longrightarrow> any_digit (0x30 + n)"
  by (simp add: any_digit_def digit_value_ascii)

lemma ascii_digit_no_space: "n < 10 \<Longrightarrow> \<not> py_isspace (0x30 + n)"
  by (simp add: py_isspace_def)

lemma pad2_shape: "n < 100 \<Longrightarrow> \<exists>q r. pad2 n = [0x30 + q, 0x30 + r] \<and> q < 10 \<and> r < 10 \<and> n = 10 * q + r"
  by (rule exI [of _ "n div 10"], rule exI [of _ "n mod 10"]) (simp add: pad2_def)

lemma two_ascii:
  "q < 10 \<Longrightarrow> r < 10 \<Longrightarrow>
     two f g ((0x30 + q) # (0x30 + r) # rest)
       = (if f (0x30 + q) \<and> g (0x30 + r) then Some (10 * q + r, rest) else None)"
  by (simp add: two_def digit_value_ascii)

lemma match_m_pad2: "1 \<le> m \<Longrightarrow> m \<le> 12 \<Longrightarrow> match_m (pad2 m @ rest) = Some (m, rest)"
proof -
  assume m: "1 \<le> m" "m \<le> 12"
  then obtain q r where s: "pad2 m = [0x30 + q, 0x30 + r]" "q < 10" "r < 10" "m = 10 * q + r"
    using pad2_shape [of m] by auto
  with m show ?thesis
    by (auto simp: match_m_def two_ascii between_ascii orelse_def)
qed

lemma match_d_pad2: "1 \<le> d \<Longrightarrow> d \<le> 31 \<Longrightarrow> match_d (pad2 d @ rest) = Some (d, rest)"
proof -
  assume d: "1 \<le> d" "d \<le> 31"
  then obtain q r where s: "pad2 d = [0x30 + q, 0x30 + r]" "q < 10" "r < 10" "d = 10 * q + r"
    using pad2_shape [of d] by auto
  with d show ?thesis
    by (auto simp: match_d_def two_ascii between_ascii any_digit_ascii orelse_def)
qed

lemma match_H_pad2: "H \<le> 23 \<Longrightarrow> match_H (pad2 H @ rest) = Some (H, rest)"
proof -
  assume h: "H \<le> 23"
  then obtain q r where s: "pad2 H = [0x30 + q, 0x30 + r]" "q < 10" "r < 10" "H = 10 * q + r"
    using pad2_shape [of H] by auto
  with h show ?thesis
    by (auto simp: match_H_def two_ascii between_ascii any_digit_ascii orelse_def)
qed

lemma match_M_pad2: "M \<le> 59 \<Longrightarrow> match_M (pad2 M @ rest) = Some (M, rest)"
proof -
  assume h: "M \<le> 59"
  then obtain q r where s: "pad2 M = [0x30 + q, 0x30 + r]" "q < 10" "r < 10" "M = 10 * q + r"
    using pad2_shape [of M] by auto
  with h show ?thesis
    by (auto simp: match_M_def two_ascii between_ascii any_digit_ascii orelse_def)
qed

lemma match_S_pad2: "S \<le> 59 \<Longrightarrow> match_S (pad2 S @ rest) = Some (S, rest)"
proof -
  assume h: "S \<le> 59"
  then obtain q r where s: "pad2 S = [0x30 + q, 0x30 + r]" "q < 10" "r < 10" "S = 10 * q + r"
    using pad2_shape [of S] by auto
  with h show ?thesis
    by (auto simp: match_S_def two_ascii between_ascii any_digit_ascii orelse_def)
qed

lemma decimal_step: "10 \<le> n \<Longrightarrow> decimal n = decimal (n div 10) @ [0x30 + n mod 10]"
  by (subst decimal.simps) simp

lemma decimal_digit: "n < 10 \<Longrightarrow> decimal n = [0x30 + n]"
  by (subst decimal.simps) simp

lemma decimal_four:
  "1000 \<le> Y \<Longrightarrow> Y \<le> 9999 \<Longrightarrow>
     decimal Y = [0x30 + Y div 1000, 0x30 + Y div 100 mod 10, 0x30 + Y div 10 mod 10, 0x30 + Y mod 10]"
proof -
  assume y: "1000 \<le> Y" "Y \<le> 9999"
  then have "10 \<le> Y" and "10 \<le> Y div 10" and "10 \<le> Y div 100" and "Y div 1000 < 10"
    by simp_all
  moreover have "Y div 10 div 10 = Y div 100" and "Y div 100 div 10 = Y div 1000"
    by (simp_all add: div_mult2_eq [symmetric])
  ultimately show ?thesis
    using decimal_step [of Y] decimal_step [of "Y div 10"] decimal_step [of "Y div 100"]
      decimal_digit [of "Y div 1000"]
    by simp
qed

lemma year_digits_sum:
  "1000 * (Y div 1000) + 100 * (Y div 100 mod 10) + 10 * (Y div 10 mod 10) + Y mod 10 = (Y::nat)"
proof -
  have a: "Y = 10 * (Y div 10) + Y mod 10" by simp
  have b: "Y div 10 = 10 * (Y div 100) + Y div 10 mod 10"
    using div_mult_mod_eq [of "Y div 10" 10] by (simp add: div_mult2_eq [symmetric])
  have c: "Y div 100 = 10 * (Y div 1000) + Y div 100 mod 10"
    using div_mult_mod_eq [of "Y div 100" 10] by (simp add: div_mult2_eq [symmetric])
  from a b c show ?thesis by linarith
qed

lemma match_Y_decimal:
  "1000 \<le> Y \<Longrightarrow> Y \<le> 9999 \<Longrightarrow> match_Y (decimal Y @ rest) = Some (Y, rest)"
proof -
  assume y: "1000 \<le> Y" "Y \<le> 9999"
  from y have d: "Y div 1000 < 10" by simp
  have e: "Y div 100 mod 10 < 10" "Y div 10 mod 10 < 10" "Y mod 10 < 10" by simp_all
  show ?thesis
    unfolding decimal_four [OF y] match_Y_def
    by (simp add: digit_value_ascii [OF d] digit_value_ascii [OF e(1)]
        digit_value_ascii [OF e(2)] digit_value_ascii [OF e(3)] year_digits_sum)
qed

lemma blank_is_space: "py_isspace 0x20"
  by (simp add: py_isspace_def)

lemma spaces_blank_digit:
  assumes "n < 100"
  shows "spaces (0x20 # pad2 n @ rest) = Some (pad2 n @ rest)"
proof -
  from assms have "n div 10 < 10" by simp
  then have "\<not> py_isspace (0x30 + n div 10)" by (rule ascii_digit_no_space)
  then show ?thesis by (simp add: spaces_def pad2_def blank_is_space)
qed

lemma days_in_month_le: "days_in_month y m \<le> 31"
  by (simp add: days_in_month_def)

lemma match_format_timestamp:
  assumes "1000 \<le> Y" "Y \<le> 9999" "1 \<le> m" "m \<le> 12" "1 \<le> d" "d \<le> 31"
    "H \<le> 23" "M \<le> 59" "S \<le> 59"
  shows "match_format (timestamp Y m d H M S)
           = Some \<lparr>year = Y, month = m, day = d, hour = H, minute = M, second = S\<rparr>"
proof -
  have t: "timestamp Y m d H M S =
      decimal Y @ 0x2D # pad2 m @ 0x2D # pad2 d @ 0x20 # pad2 H @ 0x3A # pad2 M @ 0x3A # pad2 S"
    by (simp add: timestamp_def u_def)
  from assms have H: "H < 100" by simp
  have last: "match_S (pad2 S) = Some (S, [])"
    using match_S_pad2 [OF assms(9), of "[]"] by simp
  show ?thesis
    unfolding t match_format_def
    by (simp add: match_Y_decimal [OF assms(1,2)] match_m_pad2 [OF assms(3,4)]
        match_d_pad2 [OF assms(5,6)] spaces_blank_digit [OF H] match_H_pad2 [OF assms(7)]
        match_M_pad2 [OF assms(8)] last literal_def)
qed

lemma dropWhile_keeps: "x \<in> set xs \<Longrightarrow> \<not> P x \<Longrightarrow> x \<in> set (dropWhile P xs)"
  by (induction xs) auto

lemma strip_keeps: "c \<in> set s \<Longrightarrow> \<not> py_isspace c \<Longrightarrow> c \<in> set (strip s)"
  by (simp add: strip_def lstrip_def rstrip_def dropWhile_keeps)

lemma strip_Nil: "strip [] = []"
  by (simp add: strip_def lstrip_def rstrip_def)

lemma format_timestamp:
  assumes "1000 \<le> Y" "Y \<le> 9999" "1 \<le> m" "m \<le> 12" "1 \<le> d" "d \<le> days_in_month Y m"
    "H \<le> 23" "M \<le> 59" "S \<le> 59"
  shows "format_ofx_datetime (Some (timestamp Y m d H M S))
           = Inr (decimal Y @ pad2 m @ pad2 d @ pad2 H @ pad2 M @ pad2 S @ u ''.000[+8:CST]'')"
proof -
  from assms(6) days_in_month_le [of Y m] have d31: "d \<le> 31" by simp
  have parsed: "strptime (timestamp Y m d H M S)
      = Inr \<lparr>year = Y, month = m, day = d, hour = H, minute = M, second = S\<rparr>"
    using assms
    by (simp add: strptime_def valid_datetime_def
        match_format_timestamp [OF assms(1,2,3,4,5) d31 assms(7,8,9)])
  have "0x2D \<in> set (timestamp Y m d H M S)"
    by (simp add: timestamp_def u_def)
  moreover have "\<not> py_isspace 0x2D" by (simp add: py_isspace_def)
  ultimately have "0x2D \<in> set (strip (timestamp Y m d H M S))"
    by (rule strip_keeps)
  then have "strip (timestamp Y m d H M S) \<noteq> []" and "timestamp Y m d H M S \<noteq> []"
    by (auto simp: strip_Nil)
  then show ?thesis
    by (simp add: format_ofx_datetime_def parsed and_then_def strftime_def)
qed

lemma format_blank: "strip s = [] \<Longrightarrow> format_ofx_datetime (Some s) = Inr []"
  by (simp add: format_ofx_datetime_def)

lemma match_Y_bound: "match_Y s = Some (Y, rest) \<Longrightarrow> Y \<le> 9999"
  by (auto simp: match_Y_def split: list.splits option.splits dest!: digit_value_less)

lemma decimal_length: "1000 \<le> Y \<Longrightarrow> Y \<le> 9999 \<Longrightarrow> length (decimal Y) = 4"
  by (simp add: decimal_four)

lemma between_value:
  assumes "between lo hi c" and "hi \<le> 9"
  shows "\<exists>n. digit_value c = Some n \<and> lo \<le> n \<and> n \<le> hi"
proof -
  from assms have c: "c = 0x30 + (c - 0x30)" and "c - 0x30 < 10"
    and "lo \<le> c - 0x30" and "c - 0x30 \<le> hi"
    by (auto simp: between_def)
  with digit_value_ascii [of "c - 0x30"] have "digit_value c = Some (c - 0x30)"
    by simp
  with \<open>lo \<le> c - 0x30\<close> \<open>c - 0x30 \<le> hi\<close> show ?thesis by blast
qed

lemma any_digit_value: "any_digit c \<Longrightarrow> \<exists>n. digit_value c = Some n \<and> n \<le> 9"
  using digit_value_less [of c] by (fastforce simp: any_digit_def)

lemma two_Some:
  "two f g s = Some (v, rest) \<Longrightarrow>
     \<exists>a b x y. f a \<and> g b \<and> digit_value a = Some x \<and> digit_value b = Some y \<and> v = 10 * x + y"
  by (auto simp: two_def split: list.splits option.splits if_splits)

lemma one_Some: "one f s = Some (v, rest) \<Longrightarrow> \<exists>a. f a \<and> digit_value a = Some v"
  by (auto simp: one_def split: list.splits if_splits)

lemma blank_one_Some: "blank_one s = Some (v, rest) \<Longrightarrow> 1 \<le> v \<and> v \<le> 9"
  by (auto simp: blank_one_def between_def split: list.splits if_splits)

lemma orelse_cases: "orelse x y = Some v \<Longrightarrow> x = Some v \<or> y = Some v"
  by (simp add: orelse_def split: option.splits)

lemma two_between_range:
  assumes "two (between a b) (between c d) s = Some (v, rest)" and "b \<le> 9" and "d \<le> 9"
  shows "10 * a + c \<le> v \<and> v \<le> 10 * b + d"
proof -
  from two_Some [OF assms(1)] obtain p q x y where
    "between a b p" "between c d q" "digit_value p = Some x" "digit_value q = Some y"
    "v = 10 * x + y"
    by blast
  with between_value [of a b p] between_value [of c d q] assms(2,3) show ?thesis
    by auto
qed

lemma two_digit_range:
  assumes "two (between a b) any_digit s = Some (v, rest)" and "b \<le> 9"
  shows "10 * a \<le> v \<and> v \<le> 10 * b + 9"
proof -
  from two_Some [OF assms(1)] obtain p q x y where
    "between a b p" "any_digit q" "digit_value p = Some x" "digit_value q = Some y"
    "v = 10 * x + y"
    by blast
  with between_value [of a b p] any_digit_value [of q] assms(2) show ?thesis
    by auto
qed

lemma one_between_range:
  assumes "one (between a b) s = Some (v, rest)" and "b \<le> 9"
  shows "a \<le> v \<and> v \<le> b"
proof -
  from one_Some [OF assms(1)] obtain p where "between a b p" "digit_value p = Some v"
    by blast
  with between_value [of a b p] assms(2) show ?thesis by auto
qed

lemma one_digit_range: "one any_digit s = Some (v, rest) \<Longrightarrow> v \<le> 9"
  using any_digit_value by (fastforce dest: one_Some)

lemma match_m_range: "match_m s = Some (v, rest) \<Longrightarrow> 1 \<le> v \<and> v \<le> 12"
  unfolding match_m_def
  by (auto dest!: orelse_cases dest: two_between_range one_between_range)

lemma match_d_range: "match_d s = Some (v, rest) \<Longrightarrow> 1 \<le> v \<and> v \<le> 31"
  unfolding match_d_def
  by (auto dest!: orelse_cases
      dest: two_between_range two_digit_range one_between_range blank_one_Some)

lemma match_H_range: "match_H s = Some (v, rest) \<Longrightarrow> v \<le> 23"
  unfolding match_H_def
  by (auto dest!: orelse_cases dest: two_between_range two_digit_range one_digit_range)

lemma match_M_range: "match_M s = Some (v, rest) \<Longrightarrow> v \<le> 59"
  unfolding match_M_def
  by (auto dest!: orelse_cases dest: two_digit_range one_digit_range)

lemma match_format_fields:
  assumes "match_format s = Some dt"
  shows "year dt \<le> 9999 \<and> 1 \<le> month dt \<and> month dt \<le> 12 \<and> 1 \<le> day dt \<and> day dt \<le> 31 \<and>
         hour dt \<le> 23 \<and> minute dt \<le> 59"
proof -
  from assms obtain Y m d H M S s1 s3 s5 s6 s7 s9 s10 s11 where
    parts: "match_Y s = Some (Y, s1)" "match_m s3 = Some (m, s5)" "match_d s6 = Some (d, s7)"
      "match_H s9 = Some (H, s10)" "match_M s11 = Some (M, S)"
    and dt: "year dt = Y" "month dt = m" "day dt = d" "hour dt = H" "minute dt = M"
    by (auto simp: match_format_def Option.bind_eq_Some_conv split: if_splits)
  from parts dt match_Y_bound [OF parts(1)] match_m_range [OF parts(2)]
    match_d_range [OF parts(3)] match_H_range [OF parts(4)] match_M_range [OF parts(5)]
  show ?thesis by simp
qed

lemma format_parsed:
  assumes "strip s \<noteq> []"
  shows "(strptime s = Inl ValueError \<and> format_ofx_datetime (Some s) = Inl ValueError) \<or>
         (\<exists>Y m d H M S.
            strptime s = Inr \<lparr>year = Y, month = m, day = d, hour = H, minute = M, second = S\<rparr> \<and>
            1 \<le> Y \<and> Y \<le> 9999 \<and> 1 \<le> m \<and> m \<le> 12 \<and> 1 \<le> d \<and> d \<le> days_in_month Y m \<and>
            H \<le> 23 \<and> M \<le> 59 \<and> S \<le> 59 \<and>
            (1000 \<le> Y \<longrightarrow>
               length (decimal Y) = 4 \<and>
               format_ofx_datetime (Some s)
                 = Inr (decimal Y @ pad2 m @ pad2 d @ pad2 H @ pad2 M @ pad2 S @ u ''.000[+8:CST]'') \<and>
               format_ofx_datetime (Some s) = format_ofx_datetime (Some (timestamp Y m d H M S))))"
proof (cases "strptime s")
  case (Inl e)
  then have "e = ValueError"
    by (simp add: strptime_def split: option.splits if_splits)
  with Inl assms show ?thesis
    by (auto simp: format_ofx_datetime_def and_then_def strip_Nil)
next
  case (Inr dt)
  then have m: "match_format s = Some dt" and v: "valid_datetime dt"
    by (simp_all add: strptime_def split: option.splits if_splits)
  let ?Y = "year dt" and ?m = "month dt" and ?d = "day dt"
  let ?H = "hour dt" and ?M = "minute dt" and ?S = "second dt"
  have dt: "dt = \<lparr>year = ?Y, month = ?m, day = ?d, hour = ?H, minute = ?M, second = ?S\<rparr>"
    by simp
  from match_format_fields [OF m] v
  have r: "1 \<le> ?Y" "?Y \<le> 9999" "1 \<le> ?m" "?m \<le> 12" "1 \<le> ?d" "?d \<le> days_in_month ?Y ?m"
    "?H \<le> 23" "?M \<le> 59" "?S \<le> 59"
    by (simp_all add: valid_datetime_def)
  from assms Inr have out: "format_ofx_datetime (Some s) = Inr (strftime dt @ u ''.000[+8:CST]'')"
    by (auto simp: format_ofx_datetime_def and_then_def strip_Nil)
  have big: "1000 \<le> ?Y \<longrightarrow>
      length (decimal ?Y) = 4 \<and>
      format_ofx_datetime (Some s)
        = Inr (decimal ?Y @ pad2 ?m @ pad2 ?d @ pad2 ?H @ pad2 ?M @ pad2 ?S @ u ''.000[+8:CST]'') \<and>
      format_ofx_datetime (Some s) = format_ofx_datetime (Some (timestamp ?Y ?m ?d ?H ?M ?S))"
  proof
    assume y: "1000 \<le> ?Y"
    from format_timestamp [OF y r(2,3,4,5,6,7,8,9)] out decimal_length [OF y r(2)]
    show "length (decimal ?Y) = 4 \<and>
      format_ofx_datetime (Some s)
        = Inr (decimal ?Y @ pad2 ?m @ pad2 ?d @ pad2 ?H @ pad2 ?M @ pad2 ?S @ u ''.000[+8:CST]'') \<and>
      format_ofx_datetime (Some s) = format_ofx_datetime (Some (timestamp ?Y ?m ?d ?H ?M ?S))"
      by (simp add: strftime_def)
  qed
  from Inr dt have "strptime s
      = Inr \<lparr>year = ?Y, month = ?m, day = ?d, hour = ?H, minute = ?M, second = ?S\<rparr>"
    by simp
  with r big show ?thesis by blast
qed

lemma format_example:
  "format_ofx_datetime (Some (u ''2024-01-15 13:45:00'')) = Inr (u ''20240115134500.000[+8:CST]'')"
proof -
  have d: "decimal 2024 = u ''2024''"
    by (simp add: decimal_four u_def)
  have t: "timestamp 2024 1 15 13 45 0 = u ''2024-01-15 13:45:00''"
    by (simp add: timestamp_def d pad2_def u_def)
  have "format_ofx_datetime (Some (timestamp 2024 1 15 13 45 0))
      = Inr (decimal 2024 @ pad2 1 @ pad2 15 @ pad2 13 @ pad2 45 @ pad2 0 @ u ''.000[+8:CST]'')"
    by (rule format_timestamp) (simp_all add: days_in_month_def)
  then show ?thesis
    unfolding t by (simp add: d pad2_def u_def)
qed

lemma format_date_only: "format_ofx_datetime (Some (u ''2024-01-15'')) = Inl ValueError"
proof -
  have "match_format (u ''2024-01-15'') = None"
    by (simp add: match_format_def match_Y_def match_m_def match_d_def two_def one_def
        blank_one_def orelse_def between_def any_digit_def digit_value_def decimal_zeros_def
        literal_def spaces_def u_def)
  moreover have "strip (u ''2024-01-15'') \<noteq> []"
    by (simp add: strip_def lstrip_def rstrip_def py_isspace_def u_def)
  ultimately show ?thesis
    by (auto simp: format_ofx_datetime_def strptime_def and_then_def strip_Nil)
qed

lemma format_short_year:
  "format_ofx_datetime (Some (u ''0999-01-01 00:00:00'')) = Inr (u ''9990101000000.000[+8:CST]'')"
proof -
  have m: "match_format (u ''0999-01-01 00:00:00'')
      = Some \<lparr>year = 999, month = 1, day = 1, hour = 0, minute = 0, second = 0\<rparr>"
    by (simp add: match_format_def match_Y_def match_m_def match_d_def match_H_def match_M_def
        match_S_def two_def one_def blank_one_def orelse_def between_def any_digit_def
        digit_value_def decimal_zeros_def literal_def spaces_def py_isspace_def u_def)
  have d: "decimal 999 = u ''999''"
    using decimal_step [of 999] decimal_step [of 99] decimal_digit [of 9]
    by (simp add: u_def)
  have p: "strptime (u ''0999-01-01 00:00:00'')
      = Inr \<lparr>year = 999, month = 1, day = 1, hour = 0, minute = 0, second = 0\<rparr>"
    by (simp add: strptime_def m valid_datetime_def days_in_month_def)
  have f: "strftime \<lparr>year = 999, month = 1, day = 1, hour = 0, minute = 0, second = 0\<rparr>
      @ u ''.000[+8:CST]'' = u ''9990101000000.000[+8:CST]''"
    by (simp add: strftime_def d pad2_def) (simp add: u_def)
  have s: "strip (u ''0999-01-01 00:00:00'') \<noteq> []"
    by (simp add: strip_def lstrip_def rstrip_def py_isspace_def u_def)
  then have "u ''0999-01-01 00:00:00'' \<noteq> []"
    by (auto simp: strip_Nil)
  with s f show ?thesis
    by (simp add: format_ofx_datetime_def p and_then_def)
qed

text \<open>
  C5, as stated. Not every non-empty input yields the fourteen digits and the suffix. A
  single blank is not empty, yet the guard \<open>dt_str.strip() == ""\<close> returns the empty
  string for it. The date without a time \<open>2024-01-15\<close> does not parse, so
  \<open>strptime\<close> raises \<open>ValueError\<close>. And for a year below 1000 the year comes out
  unpadded: \<open>0999-01-01 00:00:00\<close> gives thirteen digits, not \<open>YYYYMMDDHHMMSS\<close>.
\<close>

theorem format_ofx_datetime_counterexample:
  "u '' '' \<noteq> [] \<and> format_ofx_datetime (Some (u '' '')) = Inr [] \<and>
   u ''2024-01-15'' \<noteq> [] \<and> format_ofx_datetime (Some (u ''2024-01-15'')) = Inl ValueError \<and>
   u ''0999-01-01 00:00:00'' \<noteq> [] \<and>
   format_ofx_datetime (Some (u ''0999-01-01 00:00:00'')) = Inr (u ''9990101000000.000[+8:CST]'') \<and>
   length (u ''9990101000000'') = 13"
proof -
  have "strip (u '' '') = []"
    by (simp add: strip_def lstrip_def rstrip_def py_isspace_def u_def)
  then have "format_ofx_datetime (Some (u '' '')) = Inr []"
    by (rule format_blank)
  moreover have "u '' '' \<noteq> []" and "u ''2024-01-15'' \<noteq> []"
    and "u ''0999-01-01 00:00:00'' \<noteq> []" and "length (u ''9990101000000'') = 13"
    by (simp_all add: u_def)
  ultimately show ?thesis
    using format_date_only format_short_year by simp
qed

text \<open>
  C5, amended. \<open>format_ofx_datetime\<close> applied to \<open>2024-01-15 13:45:00\<close> returns
  \<open>20240115134500.000[+8:CST]\<close>; applied to the empty string, or to a string of
  whitespace only, it returns the empty string; every other string either does not parse
  as a date and time, and then \<open>ValueError\<close> is raised, or it parses to an existing date
  and time, and then, for a year of four digits (1000 to 9999), what is returned is that
  date and time as \<open>YYYYMMDDHHMMSS\<close> followed by \<open>.000[+8:CST]\<close>, the same as for the
  timestamp written \<open>YYYY-MM-DD HH:MM:SS\<close>; and every such timestamp of an existing date
  and time is returned as its fourteen digits followed by \<open>.000[+8:CST]\<close>. Nothing is
  said about what is returned for a year below 1000.
\<close>

theorem format_ofx_datetime_cases:
  "format_ofx_datetime (Some (u ''2024-01-15 13:45:00'')) = Inr (u ''20240115134500.000[+8:CST]'') \<and>
   format_ofx_datetime (Some []) = Inr [] \<and>
   (\<forall>s. strip s = [] \<longrightarrow> format_ofx_datetime (Some s) = Inr []) \<and>
   (\<forall>s. strip s \<noteq> [] \<longrightarrow>
        (strptime s = Inl ValueError \<and> format_ofx_datetime (Some s) = Inl ValueError) \<or>
        (\<exists>Y m d H M S.
            strptime s = Inr \<lparr>year = Y, month = m, day = d, hour = H, minute = M, second = S\<rparr> \<and>
            1 \<le> Y \<and> Y \<le> 9999 \<and> 1 \<le> m \<and> m \<le> 12 \<and> 1 \<le> d \<and> d \<le> days_in_month Y m \<and>
            H \<le> 23 \<and> M \<le> 59 \<and> S \<le> 59 \<and>
            (1000 \<le> Y \<longrightarrow>
               length (decimal Y) = 4 \<and>
               format_ofx_datetime (Some s)
                 = Inr (decimal Y @ pad2 m @ pad2 d @ pad2 H @ pad2 M @ pad2 S @ u ''.000[+8:CST]'') \<and>
               format_ofx_datetime (Some s) = format_ofx_datetime (Some (timestamp Y m d H M S))))) \<and>
   (\<forall>Y m d H M S.
        1000 \<le> Y \<and> Y \<le> 9999 \<and> 1 \<le> m \<and> m \<le> 12 \<and> 1 \<le> d \<and> d \<le> days_in_month Y m \<and>
        H \<le> 23 \<and> M \<le> 59 \<and> S \<le> 59 \<longrightarrow>
        format_ofx_datetime (Some (timestamp Y m d H M S))
          = Inr (decimal Y @ pad2 m @ pad2 d @ pad2 H @ pad2 M @ pad2 S @ u ''.000[+8:CST]''))"
proof (intro conjI allI impI)
  show "format_ofx_datetime (Some (u ''2024-01-15 13:45:00'')) = Inr (u ''20240115134500.000[+8:CST]'')"
    by (rule format_example)
  show "format_ofx_datetime (Some []) = Inr []"
    by (simp add: format_ofx_datetime_def)
next
  fix s :: pystr
  assume "strip s = []"
  then show "format_ofx_datetime (Some s) = Inr []" by (rule format_blank)
next
  fix s :: pystr
  assume "strip s \<noteq> []"
  then show "(strptime s = Inl ValueError \<and> format_ofx_datetime (Some s) = Inl ValueError) \<or>
        (\<exists>Y m d H M S.
            strptime s = Inr \<lparr>year = Y, month = m, day = d, hour = H, minute = M, second = S\<rparr> \<and>
            1 \<le> Y \<and> Y \<le> 9999 \<and> 1 \<le> m \<and> m \<le> 12 \<and> 1 \<le> d \<and> d \<le> days_in_month Y m \<and>
            H \<le> 23 \<and> M \<le> 59 \<and> S \<le> 59 \<and>
            (1000 \<le> Y \<longrightarrow>
               length (decimal Y) = 4 \<and>
               format_ofx_datetime (Some s)
                 = Inr (decimal Y @ pad2 m @ pad2 d @ pad2 H @ pad2 M @ pad2 S @ u ''.000[+8:CST]'') \<and>
               format_ofx_datetime (Some s) = format_ofx_datetime (Some (timestamp Y m d H M S))))"
    by (rule format_parsed)
next
  fix Y m d H M S :: nat
  assume "1000 \<le> Y \<and> Y \<le> 9999 \<and> 1 \<le> m \<and> m \<le> 12 \<and> 1 \<le> d \<and> d \<le> days_in_month Y m \<and>
        H \<le> 23 \<and> M \<le> 59 \<and> S \<le> 59"
  then show "format_ofx_datetime (Some (timestamp Y m d H M S))
          = Inr (decimal Y @ pad2 m @ pad2 d @ pad2 H @ pad2 M @ pad2 S @ u ''.000[+8:CST]'')"
    by (intro format_timestamp) simp_all
qed

theorem format_ofx_datetime_cases_witness:
  "strip (u ''  '') = [] \<and> format_ofx_datetime (Some (u ''  '')) = Inr [] \<and>
   strip (u ''2024-1-5 3:04:05'') \<noteq> [] \<and>
   strptime (u ''2024-1-5 3:04:05'')
     = Inr \<lparr>year = 2024, month = 1, day = 5, hour = 3, minute = 4, second = 5\<rparr> \<and>
   format_ofx_datetime (Some (u ''2024-1-5 3:04:05'')) = Inr (u ''20240105030405.000[+8:CST]'') \<and>
   (31::nat) \<le> days_in_month 2024 12 \<and>
   timestamp 2024 12 31 23 59 59 = u ''2024-12-31 23:59:59'' \<and>
   format_ofx_datetime (Some (u ''2024-12-31 23:59:59'')) = Inr (u ''20241231235959.000[+8:CST]'')"
proof -
  have blank: "strip (u ''  '') = []"
    by (simp add: strip_def lstrip_def rstrip_def py_isspace_def u_def)
  have loose: "strip (u ''2024-1-5 3:04:05'') \<noteq> []"
    by (simp add: strip_def lstrip_def rstrip_def py_isspace_def u_def)
  have "match_format (u ''2024-1-5 3:04:05'')
      = Some \<lparr>year = 2024, month = 1, day = 5, hour = 3, minute = 4, second = 5\<rparr>"
    by (simp add: match_format_def match_Y_def match_m_def match_d_def match_H_def match_M_def
        match_S_def two_def one_def blank_one_def orelse_def between_def any_digit_def
        digit_value_def decimal_zeros_def literal_def spaces_def py_isspace_def u_def)
  then have parsed: "strptime (u ''2024-1-5 3:04:05'')
      = Inr \<lparr>year = 2024, month = 1, day = 5, hour = 3, minute = 4, second = 5\<rparr>"
    by (simp add: strptime_def valid_datetime_def days_in_month_def)
  have days: "(31::nat) \<le> days_in_month 2024 12"
    by (simp add: days_in_month_def)
  have d: "decimal 2024 = u ''2024''"
    by (simp add: decimal_four u_def)
  have t: "timestamp 2024 12 31 23 59 59 = u ''2024-12-31 23:59:59''"
    by (simp add: timestamp_def d pad2_def u_def)
  from format_ofx_datetime_cases
  have a: "\<forall>s. strip s = [] \<longrightarrow> format_ofx_datetime (Some s) = Inr []"
    and b: "\<forall>s. strip s \<noteq> [] \<longrightarrow>
        (strptime s = Inl ValueError \<and> format_ofx_datetime (Some s) = Inl ValueError) \<or>
        (\<exists>Y m d H M S.
            strptime s = Inr \<lparr>year = Y, month = m, day = d, hour = H, minute = M, second = S\<rparr> \<and>
            1 \<le> Y \<and> Y \<le> 9999 \<and> 1 \<le> m \<and> m \<le> 12 \<and> 1 \<le> d \<and> d \<le> days_in_month Y m \<and>
            H \<le> 23 \<and> M \<le> 59 \<and> S \<le> 59 \<and>
            (1000 \<le> Y \<longrightarrow>
               length (decimal Y) = 4 \<and>
               format_ofx_datetime (Some s)
                 = Inr (decimal Y @ pad2 m @ pad2 d @ pad2 H @ pad2 M @ pad2 S @ u ''.000[+8:CST]'') \<and>
               format_ofx_datetime (Some s) = format_ofx_datetime (Some (timestamp Y m d H M S))))"
    and c: "\<forall>Y m d H M S.
        1000 \<le> Y \<and> Y \<le> 9999 \<and> 1 \<le> m \<and> m \<le> 12 \<and> 1 \<le> d \<and> d \<le> days_in_month Y m \<and>
        H \<le> 23 \<and> M \<le> 59 \<and> S \<le> 59 \<longrightarrow>
        format_ofx_datetime (Some (timestamp Y m d H M S))
          = Inr (decimal Y @ pad2 m @ pad2 d @ pad2 H @ pad2 M @ pad2 S @ u ''.000[+8:CST]'')"
    by (rule conjunct1 [OF conjunct2 [OF conjunct2]],
        rule conjunct1 [OF conjunct2 [OF conjunct2 [OF conjunct2]]],
        rule conjunct2 [OF conjunct2 [OF conjunct2 [OF conjunct2]]])
  from a blank have r1: "format_ofx_datetime (Some (u ''  '')) = Inr []" by blast
  from b [rule_format, OF loose] parsed
  have "format_ofx_datetime (Some (u ''2024-1-5 3:04:05''))
      = Inr (decimal 2024 @ pad2 1 @ pad2 5 @ pad2 3 @ pad2 4 @ pad2 5 @ u ''.000[+8:CST]'')"
    by auto
  then have r3: "format_ofx_datetime (Some (u ''2024-1-5 3:04:05''))
      = Inr (u ''20240105030405.000[+8:CST]'')"
    by (simp add: d pad2_def u_def)
  from c [rule_format, of 2024 12 31 23 59 59] days
  have "format_ofx_datetime (Some (timestamp 2024 12 31 23 59 59))
      = Inr (decimal 2024 @ pad2 12 @ pad2 31 @ pad2 23 @ pad2 59 @ pad2 59 @ u ''.000[+8:CST]'')"
    by simp
  then have r2: "format_ofx_datetime (Some (u ''2024-12-31 23:59:59'')) = Inr (u ''20241231235959.000[+8:CST]'')"
    unfolding t by (simp add: d pad2_def u_def)
  from blank r1 loose parsed r3 days t r2 show ?thesis by simp
qed

subsection \<open>OFX emitter\<close>

lemma attempt_text_grows:
  assumes "\<And>v e1. written e1 = written e \<Longrightarrow> \<exists>rest. written (snd (k v e1)) = ws @ rest"
    and "\<exists>rest. written e = ws @ rest"
  shows "\<exists>rest. written (snd (attempt_text svc lang key text e k)) = ws @ rest"
proof (cases "\<exists>l. lang = Some l \<and> l \<noteq> []")
  case False
  then have "attempt_text svc lang key text e k = k text e"
    by (auto simp: attempt_text_def split: option.splits)
  with assms(1) [of e "text"] show ?thesis by simp
next
  case True
  then obtain l where l: "lang = Some l" "l \<noteq> []" by blast
  obtain r st where tf: "translate_field svc text l key (translator e) = (r, st)"
    by (cases "translate_field svc text l key (translator e)")
  show ?thesis
  proof (cases r)
    case (Inl x)
    with l tf assms(2) show ?thesis by (simp add: attempt_text_def)
  next
    case (Inr shown)
    with l tf have "attempt_text svc lang key text e k = k shown (e\<lparr>translator := st\<rparr>)"
      by (simp add: attempt_text_def)
    with assms(1) [of "e\<lparr>translator := st\<rparr>" shown] show ?thesis by simp
  qed
qed

lemma attempt_grows:
  assumes "\<And>v. \<exists>rest. written (snd (k v)) = ws @ rest" and "\<exists>rest. written e = ws @ rest"
  shows "\<exists>rest. written (snd (attempt r e k)) = ws @ rest"
  using assms by (cases r) (simp_all add: attempt_def)

lemma attempt_text_done:
  assumes "attempt_text svc lang key text e k = (Inr (), e')"
  shows "\<exists>shown e1. written e1 = written e \<and> k shown e1 = (Inr (), e')"
proof (cases "\<exists>l. lang = Some l \<and> l \<noteq> []")
  case False
  then have "attempt_text svc lang key text e k = k text e"
    by (auto simp: attempt_text_def split: option.splits)
  with assms show ?thesis by auto
next
  case True
  then obtain l where l: "lang = Some l" "l \<noteq> []" by blast
  obtain r st where tf: "translate_field svc text l key (translator e) = (r, st)"
    by (cases "translate_field svc text l key (translator e)")
  show ?thesis
  proof (cases r)
    case (Inl x)
    with l tf assms show ?thesis by (simp add: attempt_text_def)
  next
    case (Inr shown)
    with l tf assms have "k shown (e\<lparr>translator := st\<rparr>) = (Inr (), e')"
      by (simp add: attempt_text_def)
    moreover have "written (e\<lparr>translator := st\<rparr>) = written e" by simp
    ultimately show ?thesis by blast
  qed
qed

lemma attempt_done:
  "attempt r e k = (Inr (), e') \<Longrightarrow> \<exists>v. r = Inr v \<and> k v = (Inr (), e')"
  by (cases r) (simp_all add: attempt_def)

lemma lookup_done: "lookup d k = Inr v \<Longrightarrow> d k = Some v"
  by (simp add: lookup_def split: option.splits)

lemma write_transaction_done:
  assumes "write_transaction svc lang key t e = (Inr (), e')"
  shows "\<exists>d posted amount fitid name memo.
           t ''income_or_expense'' = Some d \<and> t ''amount_cny'' = Some amount \<and>
           t ''transaction_id'' = Some fitid \<and>
           written e' = written e @ stmttrn (trntype d) posted amount fitid name memo"
proof -
  let ?e1 = "file_write stmttrn_open e"
  from assms obtain d where d: "lookup t ''income_or_expense'' = Inr d"
    and r1: "attempt (dt_posted t) (file_write (trntype_line (trntype d)) ?e1) (\<lambda>posted.
      let e3 = file_write (dtposted_line posted) (file_write (trntype_line (trntype d)) ?e1) in
      attempt (lookup t ''amount_cny'') e3 (\<lambda>amount.
      let e4 = file_write (trnamt_line amount) e3 in
      attempt (lookup t ''transaction_id'') e4 (\<lambda>fitid.
      let e5 = file_write (fitid_line fitid) e4 in
      attempt (lookup t ''counterparty'') e5 (\<lambda>counterparty.
      attempt_text svc lang key counterparty e5 (\<lambda>name e5'.
      let e6 = file_write (name_line name) e5' in
      attempt (lookup t ''item_name'') e6 (\<lambda>item_name.
      attempt_text svc lang key item_name e6 (\<lambda>memo e6'.
      let e7 = file_write (memo_line memo) e6' in
      (Inr (), file_write stmttrn_close e7)))))))) = (Inr (), e')"
    unfolding write_transaction_def Let_def by (blast dest: attempt_done)
  let ?e2 = "file_write (trntype_line (trntype d)) ?e1"
  from r1 obtain posted where
    r2: "attempt (lookup t ''amount_cny'') (file_write (dtposted_line posted) ?e2) (\<lambda>amount.
      let e4 = file_write (trnamt_line amount) (file_write (dtposted_line posted) ?e2) in
      attempt (lookup t ''transaction_id'') e4 (\<lambda>fitid.
      let e5 = file_write (fitid_line fitid) e4 in
      attempt (lookup t ''counterparty'') e5 (\<lambda>counterparty.
      attempt_text svc lang key counterparty e5 (\<lambda>name e5'.
      let e6 = file_write (name_line name) e5' in
      attempt (lookup t ''item_name'') e6 (\<lambda>item_name.
      attempt_text svc lang key item_name e6 (\<lambda>memo e6'.
      let e7 = file_write (memo_line memo) e6' in
      (Inr (), file_write stmttrn_close e7))))))) = (Inr (), e')"
    unfolding Let_def by (blast dest: attempt_done)
  let ?e3 = "file_write (dtposted_line posted) ?e2"
  from r2 obtain amount where amount: "lookup t ''amount_cny'' = Inr amount"
    and r3: "attempt (lookup t ''transaction_id'') (file_write (trnamt_line amount) ?e3) (\<lambda>fitid.
      let e5 = file_write (fitid_line fitid) (file_write (trnamt_line amount) ?e3) in
      attempt (lookup t ''counterparty'') e5 (\<lambda>counterparty.
      attempt_text svc lang key counterparty e5 (\<lambda>name e5'.
      let e6 = file_write (name_line name) e5' in
      attempt (lookup t ''item_name'') e6 (\<lambda>item_name.
      attempt_text svc lang key item_name e6 (\<lambda>memo e6'.
      let e7 = file_write (memo_line memo) e6' in
      (Inr (), file_write stmttrn_close e7)))))) = (Inr (), e')"
    unfolding Let_def by (blast dest: attempt_done)
  let ?e4 = "file_write (trnamt_line amount) ?e3"
  from r3 obtain fitid where fitid: "lookup t ''transaction_id'' = Inr fitid"
    and r4: "attempt (lookup t ''counterparty'') (file_write (fitid_line fitid) ?e4) (\<lambda>counterparty.
      attempt_text svc lang key counterparty (file_write (fitid_line fitid) ?e4) (\<lambda>name e5'.
      let e6 = file_write (name_line name) e5' in
      attempt (lookup t ''item_name'') e6 (\<lambda>item_name.
      attempt_text svc lang key item_name e6 (\<lambda>memo e6'.
      let e7 = file_write (memo_line memo) e6' in
      (Inr (), file_write stmttrn_close e7))))) = (Inr (), e')"
    unfolding Let_def by (blast dest: attempt_done)
  let ?e5 = "file_write (fitid_line fitid) ?e4"
  from r4 obtain counterparty where
    r5: "attempt_text svc lang key counterparty ?e5 (\<lambda>name e5'.
      let e6 = file_write (name_line name) e5' in
      attempt (lookup t ''item_name'') e6 (\<lambda>item_name.
      attempt_text svc lang key item_name e6 (\<lambda>memo e6'.
      let e7 = file_write (memo_line memo) e6' in
      (Inr (), file_write stmttrn_close e7)))) = (Inr (), e')"
    by (blast dest: attempt_done)
  from attempt_text_done [OF r5] obtain name e5' where e5': "written e5' = written ?e5"
    and r6: "attempt (lookup t ''item_name'') (file_write (name_line name) e5') (\<lambda>item_name.
      attempt_text svc lang key item_name (file_write (name_line name) e5') (\<lambda>memo e6'.
      let e7 = file_write (memo_line memo) e6' in
      (Inr (), file_write stmttrn_close e7))) = (Inr (), e')"
    unfolding Let_def by blast
  let ?e6 = "file_write (name_line name) e5'"
  from r6 obtain item_name where
    r7: "attempt_text svc lang key item_name ?e6 (\<lambda>memo e6'.
      let e7 = file_write (memo_line memo) e6' in
      (Inr (), file_write stmttrn_close e7)) = (Inr (), e')"
    by (blast dest: attempt_done)
  from attempt_text_done [OF r7] obtain memo e6' where e6': "written e6' = written ?e6"
    and r8: "e' = file_write stmttrn_close (file_write (memo_line memo) e6')"
    unfolding Let_def by auto
  from r8 e6' e5' have "written e' = written e @ stmttrn (trntype d) posted amount fitid name memo"
    by (simp add: file_write_def stmttrn_def)
  with d amount fitid show ?thesis
    by (blast dest: lookup_done)
qed


lemma write_transaction_grows:
  assumes "t ''income_or_expense'' = Some d"
  shows "\<exists>rest. written (snd (write_transaction svc lang key t e))
           = (written e @ [stmttrn_open, trntype_line (trntype d)]) @ rest"
proof -
  from assms have d: "lookup t ''income_or_expense'' = Inr d"
    by (simp add: lookup_def)
  show ?thesis
    unfolding write_transaction_def Let_def d attempt_def [of "Inr d"] sum.case
    by (intro attempt_grows attempt_text_grows) (simp_all add: file_write_def)
qed


lemma write_transaction_block:
  assumes "write_transaction svc lang key t e = (Inr (), e')"
  shows "\<exists>b. block_of t b \<and> written e' = written e @ b"
  using write_transaction_done [OF assms] unfolding block_of_def by blast

lemma write_transactions_done:
  "write_transactions svc lang key ts e = (Inr (), e') \<Longrightarrow>
     \<exists>blocks. written e' = written e @ concat blocks \<and> list_all2 block_of ts blocks"
proof (induction ts arbitrary: e)
  case Nil
  then have "written e' = written e @ concat [] \<and> list_all2 block_of [] []" by simp
  then show ?case by (rule exI)
next
  case (Cons t ts)
  obtain r e1 where step: "write_transaction svc lang key t e = (r, e1)"
    by (cases "write_transaction svc lang key t e")
  have r: "r = Inr ()"
    using Cons.prems step by (cases r) simp_all
  have rest: "write_transactions svc lang key ts e1 = (Inr (), e')"
    using Cons.prems step r by simp
  from write_transaction_block [of svc lang key t e e1] step r
  obtain b where b: "block_of t b" "written e1 = written e @ b" by auto
  from Cons.IH [OF rest] obtain blocks where
    bs: "written e' = written e1 @ concat blocks" "list_all2 block_of ts blocks"
    by blast
  from b bs have "written e' = written e @ concat (b # blocks) \<and>
      list_all2 block_of (t # ts) (b # blocks)"
    by simp
  then show ?case by (rule exI)
qed


lemma head_lines_no_block:
  "stmttrn_open \<notin> set (head_lines metadata dt_server start_date end_date)"
  by (simp add: head_lines_def preamble_def after_dtserver_def after_acctid_def stmttrn_open_def u_def)



lemma tail_lines_no_block: "stmttrn_open \<notin> set (tail_lines metadata dt_server)"
  by (simp add: tail_lines_def stmttrn_open_def u_def)



lemma generate_ofx_done:
  assumes "generate_ofx svc ts metadata lang key st = (Inr (), e)"
  shows "\<exists>dt_server start_date end_date blocks.
     written e = head_lines metadata dt_server start_date end_date @ concat blocks
                   @ tail_lines metadata dt_server \<and>
     list_all2 block_of ts blocks"
proof -
  let ?e0 = "write_all preamble \<lparr>written = [], translator = st\<rparr>"
  from attempt_done [OF assms [unfolded generate_ofx_def Let_def]]
  obtain dt_server where a1: "attempt (without_dashes (metadata ''start_date''))
      (write_all after_acctid
        (file_write (u ''          <ACCTID>'' @ formatted (metadata ''account'') @ u ''</ACCTID>\<newline>'')
        (write_all after_dtserver
        (file_write (u ''      <DTSERVER>'' @ dt_server @ u ''</DTSERVER>\<newline>'') ?e0))))
      (\<lambda>start_date.
      attempt (without_dashes (metadata ''end_date''))
       (file_write (u ''          <DTSTART>'' @ start_date @ u ''000000.000[+8:CST]'' @ u ''</DTSTART>\<newline>'')
       (write_all after_acctid
        (file_write (u ''          <ACCTID>'' @ formatted (metadata ''account'') @ u ''</ACCTID>\<newline>'')
        (write_all after_dtserver
        (file_write (u ''      <DTSERVER>'' @ dt_server @ u ''</DTSERVER>\<newline>'') ?e0)))))
      (\<lambda>end_date.
      case write_transactions svc lang key ts
        (file_write (u ''          <DTEND>'' @ end_date @ u ''000000.000[+8:CST]'' @ u ''</DTEND>\<newline>'')
        (file_write (u ''          <DTSTART>'' @ start_date @ u ''000000.000[+8:CST]'' @ u ''</DTSTART>\<newline>'')
        (write_all after_acctid
        (file_write (u ''          <ACCTID>'' @ formatted (metadata ''account'') @ u ''</ACCTID>\<newline>'')
        (write_all after_dtserver
        (file_write (u ''      <DTSERVER>'' @ dt_server @ u ''</DTSERVER>\<newline>'') ?e0)))))) of
        (Inl x, e7) \<Rightarrow> (Inl x, e7)
      | (Inr _, e7) \<Rightarrow> (Inr (), write_all (tail_lines metadata dt_server) e7))) = (Inr (), e)"
    by blast
  from attempt_done [OF a1] obtain start_date where a2: "attempt (without_dashes (metadata ''end_date''))
       (file_write (u ''          <DTSTART>'' @ start_date @ u ''000000.000[+8:CST]'' @ u ''</DTSTART>\<newline>'')
       (write_all after_acctid
        (file_write (u ''          <ACCTID>'' @ formatted (metadata ''account'') @ u ''</ACCTID>\<newline>'')
        (write_all after_dtserver
        (file_write (u ''      <DTSERVER>'' @ dt_server @ u ''</DTSERVER>\<newline>'') ?e0)))))
      (\<lambda>end_date.
      case write_transactions svc lang key ts
        (file_write (u ''          <DTEND>'' @ end_date @ u ''000000.000[+8:CST]'' @ u ''</DTEND>\<newline>'')
        (file_write (u ''          <DTSTART>'' @ start_date @ u ''000000.000[+8:CST]'' @ u ''</DTSTART>\<newline>'')
        (write_all after_acctid
        (file_write (u ''          <ACCTID>'' @ formatted (metadata ''account'') @ u ''</ACCTID>\<newline>'')
        (write_all after_dtserver
        (file_write (u ''      <DTSERVER>'' @ dt_server @ u ''</DTSERVER>\<newline>'') ?e0)))))) of
        (Inl x, e7) \<Rightarrow> (Inl x, e7)
      | (Inr _, e7) \<Rightarrow> (Inr (), write_all (tail_lines metadata dt_server) e7)) = (Inr (), e)"
    by blast
  let ?e6 = "\<lambda>end_date. file_write (u ''          <DTEND>'' @ end_date @ u ''000000.000[+8:CST]'' @ u ''</DTEND>\<newline>'')
        (file_write (u ''          <DTSTART>'' @ start_date @ u ''000000.000[+8:CST]'' @ u ''</DTSTART>\<newline>'')
        (write_all after_acctid
        (file_write (u ''          <ACCTID>'' @ formatted (metadata ''account'') @ u ''</ACCTID>\<newline>'')
        (write_all after_dtserver
        (file_write (u ''      <DTSERVER>'' @ dt_server @ u ''</DTSERVER>\<newline>'') ?e0)))))"
  from attempt_done [OF a2] obtain end_date where
    run: "(case write_transactions svc lang key ts (?e6 end_date) of
        (Inl x, e7) \<Rightarrow> (Inl x, e7)
      | (Inr _, e7) \<Rightarrow> (Inr (), write_all (tail_lines metadata dt_server) e7)) = (Inr (), e)"
    by blast
  have head: "written (?e6 end_date) = head_lines metadata dt_server start_date end_date"
    by (simp add: head_lines_def file_write_def write_all_def)
  obtain r e7 where loop: "write_transactions svc lang key ts (?e6 end_date) = (r, e7)"
    by (cases "write_transactions svc lang key ts (?e6 end_date)")
  have r: "r = Inr ()"
    using run loop by (cases r) simp_all
  have e: "e = write_all (tail_lines metadata dt_server) e7"
    using run loop r by simp
  from write_transactions_done [of svc lang key ts "?e6 end_date" e7] loop r obtain blocks where
    bs: "written e7 = written (?e6 end_date) @ concat blocks" "list_all2 block_of ts blocks"
    by auto
  from e bs(1) head have "written e = head_lines metadata dt_server start_date end_date
      @ concat blocks @ tail_lines metadata dt_server"
    by (simp add: write_all_def)
  with bs(2) show ?thesis by blast
qed

lemma format_none: "format_ofx_datetime None = Inr []"
  by (simp add: format_ofx_datetime_def)

lemma format_empty: "format_ofx_datetime (Some []) = Inr []"
  by (simp add: format_ofx_datetime_def)

lemma income_record_posted: "dt_posted income_record = Inr (u ''20240115134500.000[+8:CST]'')"
proof -
  have "income_record ''payment_time'' = Some (u ''2024-01-15 13:45:00'')"
    by (simp add: income_record_def)
  moreover have "u ''20240115134500.000[+8:CST]'' \<noteq> []"
    by (simp add: u_def)
  ultimately show ?thesis
    by (simp add: dt_posted_def format_example and_then_def)
qed

lemma income_record_fields:
  "lookup income_record ''income_or_expense'' = Inr income_marker"
  "lookup income_record ''amount_cny'' = Inr (u ''12.50'')"
  "lookup income_record ''transaction_id'' = Inr (u ''T1'')"
  "lookup income_record ''counterparty'' = Inr (u ''Shop'')"
  "lookup income_record ''item_name'' = Inr (u ''Tea'')"
  by (simp_all add: lookup_def income_record_def)

lemma expense_record_fields:
  "lookup expense_record ''income_or_expense'' = Inr []"
  "lookup expense_record ''amount_cny'' = Inr (u ''7.00'')"
  "lookup expense_record ''transaction_id'' = Inr (u ''T2'')"
  "lookup expense_record ''counterparty'' = Inr (u ''Cafe'')"
  "lookup expense_record ''item_name'' = Inr (u ''Cake'')"
  by (simp_all add: lookup_def expense_record_def)

lemma undated_record_fields:
  "lookup undated_record ''income_or_expense'' = Inr income_marker"
  by (simp add: lookup_def undated_record_def)

lemma expense_record_posted: "dt_posted expense_record = Inr (u ''19700101000000.000[+0:GMT]'')"
proof -
  have "expense_record ''payment_time'' = Some []"
    and "expense_record ''transaction_create_time'' = None"
    and "expense_record ''last_modified_time'' = None"
    by (simp_all add: expense_record_def)
  then show ?thesis
    by (simp add: dt_posted_def format_none format_empty and_then_def)
qed

lemma undated_record_posted: "dt_posted undated_record = Inl ValueError"
proof -
  have "undated_record ''payment_time'' = Some (u ''2024-01-15'')"
    by (simp add: undated_record_def)
  moreover note format_date_only
  ultimately show ?thesis
    by (simp add: dt_posted_def and_then_def)
qed

lemma income_record_run:
  "write_transaction no_service None None income_record e
     = (Inr (), e\<lparr>written := written e @
          stmttrn (u ''CREDIT'') (u ''20240115134500.000[+8:CST]'') (u ''12.50'') (u ''T1'')
            (u ''Shop'') (u ''Tea'')\<rparr>)"
  by (simp add: write_transaction_def income_record_posted attempt_def attempt_text_def
      income_record_fields file_write_def stmttrn_def trntype_def)

lemma expense_record_run:
  "write_transaction no_service None None expense_record e
     = (Inr (), e\<lparr>written := written e @
          stmttrn (u ''DEBIT'') (u ''19700101000000.000[+0:GMT]'') (u ''7.00'') (u ''T2'')
            (u ''Cafe'') (u ''Cake'')\<rparr>)"
  by (simp add: write_transaction_def expense_record_posted attempt_def attempt_text_def
      expense_record_fields file_write_def stmttrn_def trntype_def income_marker_def)

lemma undated_record_run:
  "write_transaction no_service None None undated_record e
     = (Inl ValueError, e\<lparr>written := written e @ [stmttrn_open, trntype_line (u ''CREDIT'')]\<rparr>)"
  by (simp add: write_transaction_def undated_record_posted attempt_def
      undated_record_fields file_write_def trntype_def)

lemma metadata0_head:
  "truthy (metadata0 ''export_time'') = False"
  "without_dashes (metadata0 ''start_date'') = Inr []"
  "without_dashes (metadata0 ''end_date'') = Inr []"
  by (simp_all add: metadata0_def truthy_def without_dashes_def)

lemma two_records_run:
  "generate_ofx no_service [income_record, expense_record] metadata0 None None tstate0
     = (Inr (), \<lparr>written = head_lines metadata0 (u ''20240101000000.000[+8:CST]'') [] []
          @ stmttrn (u ''CREDIT'') (u ''20240115134500.000[+8:CST]'') (u ''12.50'') (u ''T1'')
              (u ''Shop'') (u ''Tea'')
          @ stmttrn (u ''DEBIT'') (u ''19700101000000.000[+0:GMT]'') (u ''7.00'') (u ''T2'')
              (u ''Cafe'') (u ''Cake'')
          @ tail_lines metadata0 (u ''20240101000000.000[+8:CST]''),
        translator = tstate0\<rparr>)"
  by (simp add: generate_ofx_def metadata0_head attempt_def income_record_run expense_record_run
      head_lines_def write_all_def file_write_def)

lemma undated_run:
  "generate_ofx no_service [undated_record, expense_record] metadata0 None None tstate0
     = (Inl ValueError, \<lparr>written = head_lines metadata0 (u ''20240101000000.000[+8:CST]'') [] []
          @ [stmttrn_open, trntype_line (u ''CREDIT'')],
        translator = tstate0\<rparr>)"
  by (simp add: generate_ofx_def metadata0_head attempt_def undated_record_run
      head_lines_def write_all_def file_write_def)

text \<open>
  C2, amended. Whenever \<open>generate_ofx\<close> returns normally, what it has written is the
  opening lines, then one block of eight lines per transaction record, in input order,
  then the closing lines; the \<open>STMTTRN\<close> opener occurs in no opening or closing line, so
  there is exactly one block per record; and in the block of a record the \<open>TRNAMT\<close>
  line holds the record's amount field and the \<open>FITID\<close> line its transaction-id field,
  character for character.
\<close>

theorem generate_ofx_blocks:
  assumes "generate_ofx svc transactions metadata lang key st = (Inr (), e)"
  shows "\<exists>dt_server start_date end_date blocks.
      written e = head_lines metadata dt_server start_date end_date @ concat blocks
                    @ tail_lines metadata dt_server \<and>
      stmttrn_open \<notin> set (head_lines metadata dt_server start_date end_date) \<and>
      stmttrn_open \<notin> set (tail_lines metadata dt_server) \<and>
      list_all2 (\<lambda>t b. \<exists>ty posted amount fitid name memo.
          t ''amount_cny'' = Some amount \<and> t ''transaction_id'' = Some fitid \<and>
          b = [stmttrn_open, trntype_line ty, dtposted_line posted,
               u ''            <TRNAMT>'' @ amount @ u ''</TRNAMT>\<newline>'',
               u ''            <FITID>'' @ fitid @ u ''</FITID>\<newline>'',
               name_line name, memo_line memo, stmttrn_close]) transactions blocks"
proof -
  from generate_ofx_done [OF assms] obtain dt_server start_date end_date blocks where
    w: "written e = head_lines metadata dt_server start_date end_date @ concat blocks
          @ tail_lines metadata dt_server"
    and bs: "list_all2 block_of transactions blocks"
    by blast
  have "list_all2 (\<lambda>t b. \<exists>ty posted amount fitid name memo.
          t ''amount_cny'' = Some amount \<and> t ''transaction_id'' = Some fitid \<and>
          b = [stmttrn_open, trntype_line ty, dtposted_line posted,
               u ''            <TRNAMT>'' @ amount @ u ''</TRNAMT>\<newline>'',
               u ''            <FITID>'' @ fitid @ u ''</FITID>\<newline>'',
               name_line name, memo_line memo, stmttrn_close]) transactions blocks"
    using bs
  proof (rule list_all2_mono)
    fix t b
    assume "block_of t b"
    then show "\<exists>ty posted amount fitid name memo.
          t ''amount_cny'' = Some amount \<and> t ''transaction_id'' = Some fitid \<and>
          b = [stmttrn_open, trntype_line ty, dtposted_line posted,
               u ''            <TRNAMT>'' @ amount @ u ''</TRNAMT>\<newline>'',
               u ''            <FITID>'' @ fitid @ u ''</FITID>\<newline>'',
               name_line name, memo_line memo, stmttrn_close]"
      unfolding block_of_def stmttrn_def trnamt_line_def fitid_line_def by blast
  qed
  with w head_lines_no_block tail_lines_no_block show ?thesis by blast
qed

theorem generate_ofx_blocks_witness:
  "fst (generate_ofx no_service [income_record, expense_record] metadata0 None None tstate0) = Inr () \<and>
   (\<exists>dt_server start_date end_date blocks.
      written (snd (generate_ofx no_service [income_record, expense_record] metadata0 None None tstate0))
        = head_lines metadata0 dt_server start_date end_date @ concat blocks
            @ tail_lines metadata0 dt_server \<and>
      stmttrn_open \<notin> set (head_lines metadata0 dt_server start_date end_date) \<and>
      stmttrn_open \<notin> set (tail_lines metadata0 dt_server) \<and>
      list_all2 (\<lambda>t b. \<exists>ty posted amount fitid name memo.
          t ''amount_cny'' = Some amount \<and> t ''transaction_id'' = Some fitid \<and>
          b = [stmttrn_open, trntype_line ty, dtposted_line posted,
               u ''            <TRNAMT>'' @ amount @ u ''</TRNAMT>\<newline>'',
               u ''            <FITID>'' @ fitid @ u ''</FITID>\<newline>'',
               name_line name, memo_line memo, stmttrn_close])
        [income_record, expense_record] blocks)"
proof -
  have run: "generate_ofx no_service [income_record, expense_record] metadata0 None None tstate0
      = (Inr (), snd (generate_ofx no_service [income_record, expense_record] metadata0 None None tstate0))"
    by (simp add: two_records_run)
  have finished: "fst (generate_ofx no_service [income_record, expense_record] metadata0 None None tstate0)
      = Inr ()"
    by (simp add: two_records_run)
  from finished generate_ofx_blocks [OF run] show ?thesis by (rule conjI)
qed

text \<open>
  C2, as stated. Not for every list of records: a record whose payment time is the date
  \<open>2024-01-15\<close> without a time makes \<open>strptime\<close> raise inside the first block. Of two
  records, one block is begun and none is completed; no \<open>FITID\<close> or \<open>TRNAMT\<close> line
  is written at all.
\<close>

theorem generate_ofx_blocks_counterexample:
  "fst (generate_ofx no_service [undated_record, expense_record] metadata0 None None tstate0)
     = Inl ValueError \<and>
   written (snd (generate_ofx no_service [undated_record, expense_record] metadata0 None None tstate0))
     = head_lines metadata0 (u ''20240101000000.000[+8:CST]'') [] []
         @ [stmttrn_open, u ''            <TRNTYPE>CREDIT</TRNTYPE>\<newline>''] \<and>
   length (filter (\<lambda>line. line = stmttrn_open)
       (written (snd (generate_ofx no_service [undated_record, expense_record] metadata0 None None tstate0))))
     = 1 \<and>
   length [undated_record, expense_record] = 2"
proof -
  have "filter (\<lambda>line. line = stmttrn_open)
      (head_lines metadata0 (u ''20240101000000.000[+8:CST]'') [] []) = []"
    using head_lines_no_block [of metadata0 "u ''20240101000000.000[+8:CST]''" "[]" "[]"]
    by (auto simp: filter_empty_conv)
  then show ?thesis
    by (simp add: undated_run trntype_line_def stmttrn_open_def u_def)
qed

text \<open>
  C8, amended. Whenever \<open>generate_ofx\<close> returns normally, the last thirteen lines it
  has written are the closing lines, in which the \<open>BALAMT\<close> of \<open>LEDGERBAL\<close> holds
  the metadata's \<open>total_in\<close> and the \<open>BALAMT\<close> of \<open>AVAILBAL\<close> its \<open>total_out\<close>,
  verbatim (empty when the key is missing).
\<close>

theorem generate_ofx_balances:
  assumes "generate_ofx svc transactions metadata lang key st = (Inr (), e)"
  shows "\<exists>body dt_server. written e = body @
      [u ''        </BANKTRANLIST>\<newline>'',
       u ''        <LEDGERBAL>\<newline>'',
       u ''          <BALAMT>'' @ (case metadata ''total_in'' of None \<Rightarrow> [] | Some v \<Rightarrow> v)
         @ u ''</BALAMT>\<newline>'',
       u ''          <DTASOF>'' @ dt_server @ u ''</DTASOF>\<newline>'',
       u ''        </LEDGERBAL>\<newline>'',
       u ''        <AVAILBAL>\<newline>'',
       u ''          <BALAMT>'' @ (case metadata ''total_out'' of None \<Rightarrow> [] | Some v \<Rightarrow> v)
         @ u ''</BALAMT>\<newline>'',
       u ''          <DTASOF>'' @ dt_server @ u ''</DTASOF>\<newline>'',
       u ''        </AVAILBAL>\<newline>'',
       u ''      </STMTRS>\<newline>'',
       u ''    </STMTTRNRS>\<newline>'',
       u ''  </BANKMSGSRSV1>\<newline>'',
       u ''</OFX>\<newline>'']"
proof -
  from generate_ofx_done [OF assms] obtain dt_server start_date end_date blocks where
    "written e = (head_lines metadata dt_server start_date end_date @ concat blocks)
          @ tail_lines metadata dt_server"
    by auto
  then show ?thesis
    unfolding tail_lines_def by (intro exI)
qed

lemma totals_run:
  "generate_ofx no_service [] totals_metadata None None tstate0
     = (Inr (), \<lparr>written = head_lines totals_metadata (u ''20240101000000.000[+8:CST]'') [] []
          @ tail_lines totals_metadata (u ''20240101000000.000[+8:CST]''),
        translator = tstate0\<rparr>)"
proof -
  have "truthy (totals_metadata ''export_time'') = False"
    and "without_dashes (totals_metadata ''start_date'') = Inr []"
    and "without_dashes (totals_metadata ''end_date'') = Inr []"
    by (simp_all add: totals_metadata_def metadata0_def truthy_def without_dashes_def)
  then show ?thesis
    by (simp add: generate_ofx_def attempt_def head_lines_def write_all_def file_write_def)
qed



theorem generate_ofx_balances_witness:
  "fst (generate_ofx no_service [] totals_metadata None None tstate0) = Inr () \<and>
   totals_metadata ''total_in'' = Some (u ''10.00'') \<and>
   totals_metadata ''total_out'' = Some (u ''5.50'') \<and>
   (\<exists>body dt_server.
      written (snd (generate_ofx no_service [] totals_metadata None None tstate0)) = body @
      [u ''        </BANKTRANLIST>\<newline>'',
       u ''        <LEDGERBAL>\<newline>'',
       u ''          <BALAMT>'' @ u ''10.00'' @ u ''</BALAMT>\<newline>'',
       u ''          <DTASOF>'' @ dt_server @ u ''</DTASOF>\<newline>'',
       u ''        </LEDGERBAL>\<newline>'',
       u ''        <AVAILBAL>\<newline>'',
       u ''          <BALAMT>'' @ u ''5.50'' @ u ''</BALAMT>\<newline>'',
       u ''          <DTASOF>'' @ dt_server @ u ''</DTASOF>\<newline>'',
       u ''        </AVAILBAL>\<newline>'',
       u ''      </STMTRS>\<newline>'',
       u ''    </STMTTRNRS>\<newline>'',
       u ''  </BANKMSGSRSV1>\<newline>'',
       u ''</OFX>\<newline>''])"
proof -
  have run: "generate_ofx no_service [] totals_metadata None None tstate0
      = (Inr (), snd (generate_ofx no_service [] totals_metadata None None tstate0))"
    by (simp add: totals_run)
  have finished: "fst (generate_ofx no_service [] totals_metadata None None tstate0) = Inr ()"
    by (simp add: totals_run)
  have tin: "totals_metadata ''total_in'' = Some (u ''10.00'')"
    and tout: "totals_metadata ''total_out'' = Some (u ''5.50'')"
    by (simp_all add: totals_metadata_def)
  from generate_ofx_balances [OF run] have "\<exists>body dt_server.
      written (snd (generate_ofx no_service [] totals_metadata None None tstate0)) = body @
      [u ''        </BANKTRANLIST>\<newline>'',
       u ''        <LEDGERBAL>\<newline>'',
       u ''          <BALAMT>'' @ u ''10.00'' @ u ''</BALAMT>\<newline>'',
       u ''          <DTASOF>'' @ dt_server @ u ''</DTASOF>\<newline>'',
       u ''        </LEDGERBAL>\<newline>'',
       u ''        <AVAILBAL>\<newline>'',
       u ''          <BALAMT>'' @ u ''5.50'' @ u ''</BALAMT>\<newline>'',
       u ''          <DTASOF>'' @ dt_server @ u ''</DTASOF>\<newline>'',
       u ''        </AVAILBAL>\<newline>'',
       u ''      </STMTRS>\<newline>'',
       u ''    </STMTTRNRS>\<newline>'',
       u ''  </BANKMSGSRSV1>\<newline>'',
       u ''</OFX>\<newline>'']"
    unfolding tin tout option.case .
  with finished tin tout show ?thesis by (intro conjI)
qed

text \<open>
  C8, as stated. Not for every metadata: with the export time \<open>2024-01-15\<close>, a date
  without a time, the server date cannot be computed; \<open>generate_ofx\<close> raises
  \<open>ValueError\<close> after the sixteen lines of the preamble and writes no balance.
\<close>

theorem generate_ofx_balances_counterexample:
  "dated_metadata ''export_time'' = Some (u ''2024-01-15'') \<and>
   fst (generate_ofx no_service [] dated_metadata None None tstate0) = Inl ValueError \<and>
   written (snd (generate_ofx no_service [] dated_metadata None None tstate0)) = preamble"
proof -
  have t: "dated_metadata ''export_time'' = Some (u ''2024-01-15'')"
    by (simp add: dated_metadata_def)
  have "u ''2024-01-15'' \<noteq> []" by (simp add: u_def)
  with t have "truthy (dated_metadata ''export_time'')"
    by (simp add: truthy_def)
  with t show ?thesis
    by (simp add: generate_ofx_def attempt_def format_date_only write_all_def)
qed

lemma trntype_prefix:
  assumes "t ''income_or_expense'' = Some d"
  shows "\<exists>rest. written (snd (write_transaction svc lang key t e))
         = written e @
           [u ''          <STMTTRN>\<newline>'',
            u ''            <TRNTYPE>'' @ (if d = income_marker then u ''CREDIT'' else u ''DEBIT'')
              @ u ''</TRNTYPE>\<newline>''] @ rest"
proof -
  from assms obtain rest where "written (snd (write_transaction svc lang key t e))
      = (written e @ [stmttrn_open, trntype_line (trntype d)]) @ rest"
    using write_transaction_grows by blast
  then have "written (snd (write_transaction svc lang key t e))
         = written e @
           [u ''          <STMTTRN>\<newline>'',
            u ''            <TRNTYPE>'' @ (if d = income_marker then u ''CREDIT'' else u ''DEBIT'')
              @ u ''</TRNTYPE>\<newline>''] @ rest"
    unfolding stmttrn_open_def trntype_line_def trntype_def by simp
  then show ?thesis by (rule exI)
qed

lemma block_trntype:
  assumes "block_of t b"
  shows "\<exists>d. t ''income_or_expense'' = Some d \<and> length b = 8 \<and>
             b ! 1 = u ''            <TRNTYPE>''
                       @ (if d = income_marker then u ''CREDIT'' else u ''DEBIT'')
                       @ u ''</TRNTYPE>\<newline>''"
proof -
  from assms obtain d posted amount fitid name memo where
    d: "t ''income_or_expense'' = Some d"
    and b: "b = stmttrn (trntype d) posted amount fitid name memo"
    unfolding block_of_def by blast
  from b have "length b = 8" and "b ! 1 = trntype_line (trntype d)"
    by (simp_all add: stmttrn_def)
  then have "length b = 8 \<and> b ! 1 = u ''            <TRNTYPE>''
                       @ (if d = income_marker then u ''CREDIT'' else u ''DEBIT'')
                       @ u ''</TRNTYPE>\<newline>''"
    unfolding trntype_line_def trntype_def by simp
  with d show ?thesis by blast
qed

text \<open>
  C7. For every transaction record with direction field \<open>d\<close>: \<open>write_transaction\<close>
  writes, first of all and whatever happens later in the block, the block opener and the
  \<open>TRNTYPE\<close> line, which says \<open>CREDIT\<close> if \<open>d\<close> is the income marker and
  \<open>DEBIT\<close> for every other value, the empty string included. In a complete run of
  \<open>generate_ofx\<close> the second line of every record's block is that line.
\<close>

theorem trntype_by_direction:
  "(t ''income_or_expense'' = Some d \<longrightarrow>
      (\<exists>rest. written (snd (write_transaction svc lang key t e))
         = written e @
           [u ''          <STMTTRN>\<newline>'',
            u ''            <TRNTYPE>'' @ (if d = income_marker then u ''CREDIT'' else u ''DEBIT'')
              @ u ''</TRNTYPE>\<newline>''] @ rest)) \<and>
   (generate_ofx svc transactions metadata lang key st = (Inr (), e') \<longrightarrow>
      (\<exists>dt_server start_date end_date blocks.
         written e' = head_lines metadata dt_server start_date end_date @ concat blocks
                        @ tail_lines metadata dt_server \<and>
         list_all2 (\<lambda>t b. \<exists>d. t ''income_or_expense'' = Some d \<and> length b = 8 \<and>
             b ! 1 = u ''            <TRNTYPE>''
                       @ (if d = income_marker then u ''CREDIT'' else u ''DEBIT'')
                       @ u ''</TRNTYPE>\<newline>'') transactions blocks)) \<and>
   u ''CREDIT'' \<noteq> u ''DEBIT''"
proof (intro conjI impI)
  assume "t ''income_or_expense'' = Some d"
  then show "\<exists>rest. written (snd (write_transaction svc lang key t e))
         = written e @
           [u ''          <STMTTRN>\<newline>'',
            u ''            <TRNTYPE>'' @ (if d = income_marker then u ''CREDIT'' else u ''DEBIT'')
              @ u ''</TRNTYPE>\<newline>''] @ rest"
    by (rule trntype_prefix)
next
  assume "generate_ofx svc transactions metadata lang key st = (Inr (), e')"
  from generate_ofx_done [OF this] obtain dt_server start_date end_date blocks where
    w: "written e' = head_lines metadata dt_server start_date end_date @ concat blocks
          @ tail_lines metadata dt_server"
    and bs: "list_all2 block_of transactions blocks"
    by blast
  from bs have "list_all2 (\<lambda>t b. \<exists>d. t ''income_or_expense'' = Some d \<and> length b = 8 \<and>
             b ! 1 = u ''            <TRNTYPE>''
                       @ (if d = income_marker then u ''CREDIT'' else u ''DEBIT'')
                       @ u ''</TRNTYPE>\<newline>'') transactions blocks"
    by (rule list_all2_mono) (rule block_trntype)
  with w show "\<exists>dt_server start_date end_date blocks.
         written e' = head_lines metadata dt_server start_date end_date @ concat blocks
                        @ tail_lines metadata dt_server \<and>
         list_all2 (\<lambda>t b. \<exists>d. t ''income_or_expense'' = Some d \<and> length b = 8 \<and>
             b ! 1 = u ''            <TRNTYPE>''
                       @ (if d = income_marker then u ''CREDIT'' else u ''DEBIT'')
                       @ u ''</TRNTYPE>\<newline>'') transactions blocks"
    by blast
next
  show "u ''CREDIT'' \<noteq> u ''DEBIT''" by (simp add: u_def)
qed


theorem trntype_by_direction_witness:
  "income_record ''income_or_expense'' = Some income_marker \<and>
   (\<exists>rest. written (snd (write_transaction no_service None None income_record
        \<lparr>written = [], translator = tstate0\<rparr>))
      = [u ''          <STMTTRN>\<newline>'', u ''            <TRNTYPE>CREDIT</TRNTYPE>\<newline>''] @ rest) \<and>
   expense_record ''income_or_expense'' = Some [] \<and>
   (\<exists>rest. written (snd (write_transaction no_service None None expense_record
        \<lparr>written = [], translator = tstate0\<rparr>))
      = [u ''          <STMTTRN>\<newline>'', u ''            <TRNTYPE>DEBIT</TRNTYPE>\<newline>''] @ rest) \<and>
   fst (generate_ofx no_service [income_record, expense_record] metadata0 None None tstate0) = Inr ()"
proof -
  have i: "income_record ''income_or_expense'' = Some income_marker"
    by (simp add: income_record_def)
  have x: "expense_record ''income_or_expense'' = Some []"
    by (simp add: expense_record_def)
  have ne: "[] \<noteq> income_marker" by (simp add: income_marker_def)
  have finished: "fst (generate_ofx no_service [income_record, expense_record] metadata0 None None tstate0) = Inr ()"
    by (simp add: two_records_run)
  from trntype_by_direction [of income_record income_marker no_service None None
      "\<lparr>written = [], translator = tstate0\<rparr>"] i
  have a: "\<exists>rest. written (snd (write_transaction no_service None None income_record
        \<lparr>written = [], translator = tstate0\<rparr>))
      = [u ''          <STMTTRN>\<newline>'', u ''            <TRNTYPE>CREDIT</TRNTYPE>\<newline>''] @ rest"
    by (simp add: u_def)
  from trntype_by_direction [of expense_record "[]" no_service None None
      "\<lparr>written = [], translator = tstate0\<rparr>"] x ne
  have b: "\<exists>rest. written (snd (write_transaction no_service None None expense_record
        \<lparr>written = [], translator = tstate0\<rparr>))
      = [u ''          <STMTTRN>\<newline>'', u ''            <TRNTYPE>DEBIT</TRNTYPE>\<newline>''] @ rest"
    by (simp add: u_def)
  from i a x b finished show ?thesis by (intro conjI)
qed

end
